theory Spec2Isabelle
  imports Complex_Main "HOL-Library.Sublist" "HOL-Library.AList" "HOL-Library.Multiset"
    "HOL-Library.Monad_Syntax"
begin

section \<open>Python values\<close>

text \<open>
  The weather service works on decoded JSON: nested dictionaries, lists, strings, numbers,
  booleans and \<open>None\<close>. A dictionary is an association list in insertion order, with
  distinct keys (a lookup reads the first entry of a key). A number
  is \<open>PNum\<close> of its exact value, for Python's \<open>int\<close> and for a finite \<open>float\<close> alike,
  and arithmetic on numbers is exact. Text is an 8-bit \<open>string\<close>.

  Every exception that a function modelled below can raise is caught by the
  \<open>except Exception\<close> (or the bare \<open>except\<close>) of that function, whatever its class, so an
  operation that raises has the value \<open>None\<close> of an option type and \<open>do\<close> blocks
  propagate it to the handler.
\<close>

datatype pyval =
    PNone
  | PBool bool
  | PNum rat
  | PStr string
  | PList "pyval list"
  | PDict "(string \<times> pyval) list"

text \<open>Truth value testing: \<open>if x:\<close>.\<close>

fun truthy :: "pyval \<Rightarrow> bool" where
  "truthy PNone = False"
| "truthy (PBool b) = b"
| "truthy (PNum r) = (r \<noteq> 0)"
| "truthy (PStr s) = (s \<noteq> [])"
| "truthy (PList xs) = (xs \<noteq> [])"
| "truthy (PDict kvs) = (kvs \<noteq> [])"

text \<open>\<open>d.get(k, dflt)\<close>: only a dictionary has the method (AttributeError otherwise).\<close>

fun py_get :: "pyval \<Rightarrow> string \<Rightarrow> pyval \<Rightarrow> pyval option" where
  "py_get (PDict kvs) k dflt = Some (case map_of kvs k of Some v \<Rightarrow> v | None \<Rightarrow> dflt)"
| "py_get _ k dflt = None"

text \<open>
  \<open>d[k]\<close> with a string key: KeyError when the key is missing, TypeError on a list, a
  string, a number or \<open>None\<close>.
\<close>

fun py_item :: "pyval \<Rightarrow> string \<Rightarrow> pyval option" where
  "py_item (PDict kvs) k = map_of kvs k"
| "py_item _ k = None"

text \<open>
  \<open>x[0]\<close>: the first element of a list, the first character of a string; IndexError when
  empty, KeyError on a dictionary (its keys are strings), TypeError otherwise.
\<close>

fun py_first :: "pyval \<Rightarrow> pyval option" where
  "py_first (PList (x # xs)) = Some x"
| "py_first (PStr (c # cs)) = Some (PStr [c])"
| "py_first _ = None"

text \<open>
  \<open>d[k] = v\<close> with a string key: an existing key keeps its place, a new one is appended;
  TypeError on anything but a dictionary.
\<close>

fun py_setitem :: "pyval \<Rightarrow> string \<Rightarrow> pyval \<Rightarrow> pyval option" where
  "py_setitem (PDict kvs) k v = Some (PDict (AList.update k v kvs))"
| "py_setitem _ k v = None"

text \<open>The value of a number; \<open>bool\<close> is a subclass of \<open>int\<close>. Anything else is no number.\<close>

fun num_of :: "pyval \<Rightarrow> rat option" where
  "num_of (PNum r) = Some r"
| "num_of (PBool b) = Some (if b then 1 else 0)"
| "num_of _ = None"

text \<open>
  \<open>x - n\<close>, \<open>x + n\<close>, \<open>x / n\<close> and \<open>x * f\<close> for a number literal on the right (\<open>f\<close> a
  float): TypeError unless \<open>x\<close> is a number.
\<close>

definition py_sub :: "pyval \<Rightarrow> rat \<Rightarrow> pyval option" where
  "py_sub x n = map_option (\<lambda>r. PNum (r - n)) (num_of x)"

definition py_add :: "pyval \<Rightarrow> rat \<Rightarrow> pyval option" where
  "py_add x n = map_option (\<lambda>r. PNum (r + n)) (num_of x)"

definition py_div :: "pyval \<Rightarrow> rat \<Rightarrow> pyval option" where
  "py_div x n = map_option (\<lambda>r. PNum (r / n)) (num_of x)"

definition py_mul_float :: "pyval \<Rightarrow> rat \<Rightarrow> pyval option" where
  "py_mul_float x f = map_option (\<lambda>r. PNum (r * f)) (num_of x)"

text \<open>
  \<open>x * n\<close> for a positive int literal \<open>n\<close>: a number is multiplied, a string or a list is
  repeated \<open>n\<close> times, \<open>None\<close> and a dictionary raise TypeError.
\<close>

fun py_mul_int :: "pyval \<Rightarrow> nat \<Rightarrow> pyval option" where
  "py_mul_int (PNum r) n = Some (PNum (r * of_nat n))"
| "py_mul_int (PBool b) n = Some (PNum ((if b then 1 else 0) * of_nat n))"
| "py_mul_int (PStr s) n = Some (PStr (concat (replicate n s)))"
| "py_mul_int (PList xs) n = Some (PList (concat (replicate n xs)))"
| "py_mul_int _ n = None"

text \<open>
  \<open>round(x)\<close> on the exact value of a number: the nearest integer, a tie going to the even
  one.
\<close>

definition py_round :: "rat \<Rightarrow> int" where
  "py_round x =
     (let f = \<lfloor>x\<rfloor>; d = x - of_int f in
      if d < 1 / 2 then f else if 1 / 2 < d then f + 1 else if even f then f else f + 1)"

text \<open>
  \<open>round(x, 1)\<close>: the exact value rounded to a multiple of \<open>1/10\<close>, a tie going to the even
  digit (for a float the result is the float nearest to this decimal).
\<close>

definition py_round1 :: "rat \<Rightarrow> rat" where
  "py_round1 x = of_int (py_round (x * 10)) / 10"

text \<open>\<open>round(v)\<close> and \<open>round(v, 1)\<close> on a value: TypeError unless it is a number.\<close>

definition round_val :: "pyval \<Rightarrow> int option" where
  "round_val v = map_option py_round (num_of v)"

definition round1_val :: "pyval \<Rightarrow> rat option" where
  "round1_val v = map_option py_round1 (num_of v)"

text \<open>
  \<open>==\<close> on hashable values: numbers and booleans compare by value, everything else
  structurally.
\<close>

definition py_eq :: "pyval \<Rightarrow> pyval \<Rightarrow> bool" where
  "py_eq a b =
     (case (num_of a, num_of b) of
        (Some x, Some y) \<Rightarrow> x = y
      | (None, None) \<Rightarrow> a = b
      | _ \<Rightarrow> False)"

text \<open>Lists and dictionaries are unhashable: \<open>set(...)\<close> and a dictionary lookup raise.\<close>

fun hashable :: "pyval \<Rightarrow> bool" where
  "hashable (PList xs) = False"
| "hashable (PDict kvs) = False"
| "hashable _ = True"

text \<open>\<open>xs[:n]\<close> for an int \<open>n\<close>: a negative \<open>n\<close> counts from the end.\<close>

definition py_slice_to :: "int \<Rightarrow> 'a list \<Rightarrow> 'a list" where
  "py_slice_to n xs = (if 0 \<le> n then take (nat n) xs else take (length xs - nat (- n)) xs)"

text \<open>
  \<open>for x in v[:n]\<close>: the slice of a list or of a string, then its elements; TypeError or
  KeyError on anything else.
\<close>

fun py_slice_iter :: "pyval \<Rightarrow> int \<Rightarrow> pyval list option" where
  "py_slice_iter (PList xs) n = Some (py_slice_to n xs)"
| "py_slice_iter (PStr s) n = Some (map (\<lambda>c. PStr [c]) (py_slice_to n s))"
| "py_slice_iter _ n = None"

text \<open>
  \<open>min(vs)\<close> and \<open>max(vs)\<close> whose result goes to \<open>round\<close>, and \<open>sum(vs)\<close> (which starts
  from \<open>0\<close>): all three need every element to be a number. A number compared with, or
  added to, a string, a list, a dictionary or \<open>None\<close> raises TypeError, and where the
  comparisons among non-numbers succeed \<open>round\<close> raises on the result. \<open>min\<close> and \<open>max\<close>
  of an empty list raise ValueError.
\<close>

definition py_min :: "pyval list \<Rightarrow> rat option" where
  "py_min vs = do {
     nums \<leftarrow> those (map num_of vs);
     if nums = [] then None else Some (Min (set nums))
   }"

definition py_max :: "pyval list \<Rightarrow> rat option" where
  "py_max vs = do {
     nums \<leftarrow> those (map num_of vs);
     if nums = [] then None else Some (Max (set nums))
   }"

definition py_sum :: "pyval list \<Rightarrow> rat option" where
  "py_sum vs = map_option sum_list (those (map num_of vs))"

text \<open>\<open>s / n\<close> for \<open>n = len(...)\<close>: ZeroDivisionError when \<open>n\<close> is zero.\<close>

definition div_len :: "rat \<Rightarrow> nat \<Rightarrow> rat option" where
  "div_len s n = (if n = 0 then None else Some (s / of_nat n))"

text \<open>
  \<open>max(it, key=f)\<close>: the first element, in the order of iteration, whose key is the
  largest; ValueError when there is none.
\<close>

fun max_key :: "('a \<Rightarrow> nat) \<Rightarrow> 'a list \<Rightarrow> 'a option" where
  "max_key f [] = None"
| "max_key f (x # xs) = Some (fold (\<lambda>y m. if f m < f y then y else m) xs x)"

text \<open>\<open>xs.count(x)\<close>.\<close>

definition py_count :: "pyval list \<Rightarrow> pyval \<Rightarrow> nat" where
  "py_count xs x = length (filter (\<lambda>y. py_eq y x) xs)"

text \<open>\<open>s.split(c)\<close> for a one-character separator, and \<open>s.strip()\<close>.\<close>

fun split_on :: "char \<Rightarrow> string \<Rightarrow> string list" where
  "split_on c [] = [[]]"
| "split_on c (x # xs) =
     (if x = c then [] # split_on c xs
      else (case split_on c xs of w # ws \<Rightarrow> (x # w) # ws | [] \<Rightarrow> [[x]]))"

definition is_space :: "char \<Rightarrow> bool" where
  "is_space c = ((of_char c :: nat) \<in> {9, 10, 11, 12, 13, 28, 29, 30, 31, 32, 133, 160})"

definition strip :: "string \<Rightarrow> string" where
  "strip s = rev (dropWhile is_space (rev (dropWhile is_space s)))"

text \<open>Nested subscription \<open>v[k1][k2]...\<close> with string keys.\<close>

fun py_path :: "pyval \<Rightarrow> string list \<Rightarrow> pyval option" where
  "py_path v [] = Some v"
| "py_path v (k # ks) = (case py_item v k of None \<Rightarrow> None | Some x \<Rightarrow> py_path x ks)"

text \<open>An iteration \<open>for x in v\<close>: TypeError on a number, a boolean or \<open>None\<close>.\<close>

fun py_iter :: "pyval \<Rightarrow> pyval list option" where
  "py_iter (PList xs) = Some xs"
| "py_iter (PStr s) = Some (map (\<lambda>c. PStr [c]) s)"
| "py_iter (PDict kvs) = Some (map (\<lambda>kv. PStr (fst kv)) kvs)"
| "py_iter _ = None"

text \<open>A string method on a value: AttributeError unless it is a string.\<close>

fun str_of :: "pyval \<Rightarrow> string option" where
  "str_of (PStr s) = Some s"
| "str_of _ = None"

definition ascii_lower :: "(char \<times> char) list" where
  "ascii_lower = zip ''ABCDEFGHIJKLMNOPQRSTUVWXYZ'' ''abcdefghijklmnopqrstuvwxyz''"

definition lower_char :: "char \<Rightarrow> char" where
  "lower_char c = (case map_of ascii_lower c of Some l \<Rightarrow> l | None \<Rightarrow> c)"

text \<open>\<open>str.lower()\<close> on ASCII text.\<close>

definition lower :: "string \<Rightarrow> string" where
  "lower s = map lower_char s"

section \<open>The environment of the service\<close>

text \<open>
  An HTTP request is its URL and its query parameters. The world answers a request with
  the decoded JSON body, or with \<open>None\<close> when \<open>session.get\<close>, \<open>raise_for_status\<close> or
  \<open>response.json\<close> raises (connection error, timeout, non-success status, undecodable
  body). The clock, the local time zone, the rendering of values by \<open>str\<close> and the
  iteration order of a \<open>set\<close> belong to the world as well.
\<close>

record request =
  url :: string
  params :: "(string \<times> pyval) list"

record local_time =
  lt_ymd :: string
  lt_day_name :: string
  lt_hm :: string

record world =
  http :: "request \<Rightarrow> pyval option"
  now_timestamp :: int
  now_isoformat :: string
  now_strftime :: string
  end_date :: "int \<Rightarrow> string"
  fromtimestamp :: "rat \<Rightarrow> local_time option"
  fromisoformat :: "string \<Rightarrow> int option"
  strptime_today :: "string \<Rightarrow> int option"
  strptime_day_name :: "string \<Rightarrow> string option"
  py_str :: "pyval \<Rightarrow> string"
  set_order :: "pyval list \<Rightarrow> pyval list"

text \<open>
  \<^item> \<open>now_timestamp\<close> is \<open>int(datetime.now().timestamp())\<close>, \<open>now_isoformat\<close> is
    \<open>datetime.now().isoformat()\<close>, \<open>now_strftime\<close> is
    \<open>datetime.now().strftime('%Y-%m-%d %H:%M:%S')\<close>;
  \<^item> \<open>end_date days\<close> is \<open>(datetime.now() + timedelta(days=days-1)).strftime('%Y-%m-%d')\<close>;
  \<^item> \<open>fromtimestamp t\<close> is \<open>datetime.fromtimestamp(t)\<close> in the local time zone, with its
    renderings by \<open>'%Y-%m-%d'\<close>, \<open>'%A'\<close> and \<open>'%H:%M'\<close>; \<open>None\<close> when out of range;
  \<^item> \<open>fromisoformat s\<close> is \<open>int(datetime.fromisoformat(s).timestamp())\<close>;
  \<^item> \<open>strptime_today s\<close> is the timestamp of today at the time
    \<open>datetime.strptime(s, '%H:%M:%S')\<close>;
  \<^item> \<open>strptime_day_name s\<close> is \<open>datetime.strptime(s, '%Y-%m-%d').strftime('%A')\<close>;
  \<^item> \<open>py_str v\<close> is what an f-string shows for a value that is not a string;
  \<^item> \<open>set_order xs\<close> is the order in which \<open>set(xs)\<close> is iterated.
\<close>

text \<open>The object \<open>self\<close>: the two API keys. The endpoints are constants.\<close>

record service =
  visual_crossing_key :: string
  openweather_key :: string

definition vc_base_url :: string where
  "vc_base_url =
     ''https://weather.visualcrossing.com/VisualCrossingWebServices/rest/services/timeline''"

definition owm_base_url :: string where
  "owm_base_url = ''https://api.openweathermap.org/data/2.5''"

definition owm_geocoding_url :: string where
  "owm_geocoding_url = ''http://api.openweathermap.org/geo/1.0''"

text \<open>\<open>datetime.fromtimestamp(v)\<close> on a value: TypeError unless it is a number.\<close>

definition py_fromtimestamp :: "world \<Rightarrow> pyval \<Rightarrow> local_time option" where
  "py_fromtimestamp w v = (case num_of v of None \<Rightarrow> None | Some t \<Rightarrow> fromtimestamp w t)"

text \<open>A value inside an f-string.\<close>

fun fmt :: "world \<Rightarrow> pyval \<Rightarrow> string" where
  "fmt w (PStr s) = s"
| "fmt w v = py_str w v"

section \<open>The weather service\<close>

text \<open>
  The methods of \<open>WorkingWeatherService\<close>, under their names in the source without the
  leading underscore of the private ones.
\<close>

subsection \<open>Helpers of the service\<close>

definition icon_code_map :: "(string \<times> string) list" where
  "icon_code_map =
    [(''clear-day'', ''01d''),
     (''clear-night'', ''01n''),
     (''partly-cloudy-day'', ''02d''),
     (''partly-cloudy-night'', ''02n''),
     (''cloudy'', ''03d''),
     (''fog'', ''50d''),
     (''wind'', ''50d''),
     (''rain'', ''10d''),
     (''sleet'', ''13d''),
     (''snow'', ''13d''),
     (''hail'', ''13d'')]"

text \<open>\<open>icon_map.get(vc_icon, '01d')\<close>: TypeError on an unhashable key.\<close>

definition get_weather_icon_code :: "pyval \<Rightarrow> pyval option" where
  "get_weather_icon_code vc_icon =
     (if hashable vc_icon then
        Some (PStr (case vc_icon of
                      PStr s \<Rightarrow> (case map_of icon_code_map s of Some c \<Rightarrow> c | None \<Rightarrow> ''01d'')
                    | _ \<Rightarrow> ''01d''))
      else None)"

text \<open>The bare \<open>except\<close> makes every failure the current time.\<close>

definition parse_time_to_timestamp :: "world \<Rightarrow> pyval \<Rightarrow> int" where
  "parse_time_to_timestamp w time_str =
     (if truthy time_str then
        (case time_str of
           PStr s \<Rightarrow> (case strptime_today w s of Some t \<Rightarrow> t | None \<Rightarrow> now_timestamp w)
         | _ \<Rightarrow> now_timestamp w)
      else now_timestamp w)"

text \<open>
  \<open>x.get('pressure', 0) * 33.8639 if x.get('pressure') else 0\<close>, the conversion from
  inches of mercury to hectopascals.
\<close>

definition convert_pressure :: "pyval \<Rightarrow> pyval option" where
  "convert_pressure x = do {
     p \<leftarrow> py_get x ''pressure'' PNone;
     if truthy p then do {
       p0 \<leftarrow> py_get x ''pressure'' (PNum 0);
       py_mul_float p0 (338639 / 10000)
     } else Some (PNum 0)
   }"

text \<open>\<open>location.split(',')[-1].strip() if ',' in location else ''\<close>.\<close>

definition country_of :: "string \<Rightarrow> string" where
  "country_of location =
     (if CHR '','' \<in> set location then strip (last (split_on CHR '','' location)) else [])"

subsection \<open>Visual Crossing, the primary provider\<close>

text \<open>The dictionary built from the payload of the current conditions.\<close>

definition vc_current_record :: "world \<Rightarrow> string \<Rightarrow> pyval \<Rightarrow> pyval option" where
  "vc_current_record w city data = do {
     current \<leftarrow> py_get data ''currentConditions'' (PDict []);
     location_v \<leftarrow> py_get data ''resolvedAddress'' (PStr city);
     location \<leftarrow> str_of location_v;
     temp \<leftarrow> py_get current ''temp'' (PNum 0);
     feels_like \<leftarrow> py_get current ''feelslike'' (PNum 0);
     humidity \<leftarrow> py_get current ''humidity'' (PNum 0);
     pressure \<leftarrow> convert_pressure current;
     temp_min \<leftarrow> py_sub temp 2;
     temp_max \<leftarrow> py_add temp 2;
     conditions \<leftarrow> py_get current ''conditions'' (PStr []);
     icon_v \<leftarrow> py_get current ''icon'' (PStr []);
     icon_code \<leftarrow> get_weather_icon_code icon_v;
     windspeed \<leftarrow> py_get current ''windspeed'' (PNum 0);
     winddir \<leftarrow> py_get current ''winddir'' (PNum 0);
     visibility_km \<leftarrow> py_get current ''visibility'' (PNum 0);
     visibility \<leftarrow> py_mul_int visibility_km 1000;
     sunrise \<leftarrow> py_get current ''sunrise'' (PStr []);
     sunset \<leftarrow> py_get current ''sunset'' (PStr []);
     alerts \<leftarrow> py_get data ''alerts'' (PList []);
     Some (PDict
       [(''source'', PStr ''visual_crossing''),
        (''name'', PStr (hd (split_on CHR '','' location))),
        (''country'', PStr (country_of location)),
        (''main'', PDict
           [(''temp'', temp),
            (''feels_like'', feels_like),
            (''humidity'', humidity),
            (''pressure'', pressure),
            (''temp_min'', temp_min),
            (''temp_max'', temp_max)]),
        (''weather'', PList [PDict [(''description'', conditions), (''icon'', icon_code)]]),
        (''wind'', PDict [(''speed'', windspeed), (''deg'', winddir)]),
        (''visibility'', visibility),
        (''dt'', PNum (of_int (now_timestamp w))),
        (''sys'', PDict
           [(''country'', PStr (country_of location)),
            (''sunrise'', PNum (of_int (parse_time_to_timestamp w sunrise))),
            (''sunset'', PNum (of_int (parse_time_to_timestamp w sunset)))]),
        (''alerts'', alerts)])
   }"

definition vc_current_request :: "service \<Rightarrow> string \<Rightarrow> string \<Rightarrow> request" where
  "vc_current_request self city units =
     (let unit_group = (if units = ''metric'' then ''metric'' else ''us'') in
      \<lparr>url = vc_base_url @ ''/'' @ city @ ''/today'',
       params =
         [(''key'', PStr (visual_crossing_key self)),
          (''unitGroup'', PStr unit_group),
          (''include'', PStr ''current,days,alerts''),
          (''contentType'', PStr ''json'')]\<rparr>)"

text \<open>
  Each provider function returns its result together with the requests it has sent, in
  order.
\<close>

definition get_vc_current_weather ::
  "world \<Rightarrow> service \<Rightarrow> string \<Rightarrow> string \<Rightarrow> pyval option \<times> request list" where
  "get_vc_current_weather w self city units =
     (let req = vc_current_request self city units in
      (do { data \<leftarrow> http w req; vc_current_record w city data }, [req]))"





definition vc_alert_record :: "world \<Rightarrow> pyval \<Rightarrow> pyval option" where
  "vc_alert_record w alert = do {
     event \<leftarrow> py_get alert ''event'' (PStr ''Weather Alert'');
     description \<leftarrow> py_get alert ''description'' (PStr ''Weather alert in effect'');
     severity \<leftarrow> py_get alert ''severity'' (PStr ''Unknown'');
     start \<leftarrow> py_get alert ''onset'' (PStr (now_isoformat w));
     end_v \<leftarrow> py_get alert ''expires'' (PStr []);
     Some (PDict
       [(''event'', event),
        (''description'', description),
        (''severity'', severity),
        (''start'', start),
        (''end'', end_v),
        (''source'', PStr ''Visual Crossing'')])
   }"

definition vc_alerts_request :: "service \<Rightarrow> string \<Rightarrow> request" where
  "vc_alerts_request self city =
     \<lparr>url = vc_base_url @ ''/'' @ city @ ''/today'',
      params =
        [(''key'', PStr (visual_crossing_key self)),
         (''include'', PStr ''alerts''),
         (''contentType'', PStr ''json'')]\<rparr>"

text \<open>The handler returns the empty list.\<close>

definition get_vc_alerts :: "world \<Rightarrow> service \<Rightarrow> string \<Rightarrow> pyval list \<times> request list" where
  "get_vc_alerts w self city =
     (let req = vc_alerts_request self city in
      (case do {
              data \<leftarrow> http w req;
              vc_alerts \<leftarrow> py_get data ''alerts'' (PList []);
              alert_list \<leftarrow> py_iter vc_alerts;
              those (map (vc_alert_record w) alert_list)
            } of
         Some alerts \<Rightarrow> alerts
       | None \<Rightarrow> [],
       [req]))"

subsection \<open>OpenWeatherMap, the secondary provider\<close>

definition owm_current_request :: "service \<Rightarrow> string \<Rightarrow> string \<Rightarrow> request" where
  "owm_current_request self city units =
     \<lparr>url = owm_base_url @ ''/weather'',
      params =
        [(''q'', PStr city),
         (''appid'', PStr (openweather_key self)),
         (''units'', PStr units)]\<rparr>"

definition get_owm_current_weather ::
  "world \<Rightarrow> service \<Rightarrow> string \<Rightarrow> string \<Rightarrow> pyval option \<times> request list" where
  "get_owm_current_weather w self city units =
     (let req = owm_current_request self city units in
      (do { data \<leftarrow> http w req; py_setitem data ''source'' (PStr ''openweathermap'') }, [req]))"

definition geocoding_request :: "service \<Rightarrow> string \<Rightarrow> request" where
  "geocoding_request self city =
     \<lparr>url = owm_geocoding_url @ ''/direct'',
      params =
        [(''q'', PStr city),
         (''limit'', PNum 1),
         (''appid'', PStr (openweather_key self))]\<rparr>"

definition get_city_coordinates ::
  "world \<Rightarrow> service \<Rightarrow> string \<Rightarrow> (pyval \<times> pyval) option \<times> request list" where
  "get_city_coordinates w self city =
     (let req = geocoding_request self city in
      (do {
         data \<leftarrow> http w req;
         if truthy data then do {
           first \<leftarrow> py_first data;
           lat \<leftarrow> py_item first ''lat'';
           first' \<leftarrow> py_first data;
           lon \<leftarrow> py_item first' ''lon'';
           Some (lat, lon)
         } else None
       }, [req]))"



definition owm_alerts_request :: "service \<Rightarrow> pyval \<Rightarrow> pyval \<Rightarrow> request" where
  "owm_alerts_request self lat lon =
     \<lparr>url = owm_base_url @ ''/weather'',
      params = [(''lat'', lat), (''lon'', lon), (''appid'', PStr (openweather_key self))]\<rparr>"

text \<open>The alerts derived from the current conditions of the secondary provider.\<close>

definition owm_derived_alerts :: "world \<Rightarrow> pyval \<Rightarrow> pyval list option" where
  "owm_derived_alerts w data = do {
     weather \<leftarrow> py_get data ''weather'' PNone;
     if truthy weather then do {
       weather_list \<leftarrow> py_item data ''weather'';
       first \<leftarrow> py_first weather_list;
       main_v \<leftarrow> py_item first ''main'';
       main_s \<leftarrow> str_of main_v;
       let main_weather = lower main_s;
       description \<leftarrow> py_item first ''description'';
       let alerts =
         (if sublist ''thunderstorm'' main_weather \<or> sublist ''tornado'' main_weather then
            [PDict
               [(''event'', PStr ''Severe Thunderstorm Warning''),
                (''description'', PStr (''Severe weather detected: '' @ fmt w description)),
                (''severity'', PStr ''Severe''),
                (''start'', PStr (now_isoformat w)),
                (''source'', PStr ''OpenWeatherMap Analysis'')]]
          else []);
       wind \<leftarrow> py_get data ''wind'' (PDict []);
       wind_speed \<leftarrow> py_get wind ''speed'' (PNum 0);
       speed \<leftarrow> num_of wind_speed;
       Some (alerts @
         (if 15 < speed then
            [PDict
               [(''event'', PStr ''High Wind Warning''),
                (''description'',
                   PStr (''Strong winds detected: '' @ fmt w wind_speed @ '' m/s'')),
                (''severity'', PStr ''Moderate''),
                (''start'', PStr (now_isoformat w)),
                (''source'', PStr ''OpenWeatherMap Analysis'')]]
          else []))
     } else Some []
   }"

definition get_owm_alerts ::
  "world \<Rightarrow> service \<Rightarrow> pyval \<Rightarrow> pyval \<Rightarrow> pyval list \<times> request list" where
  "get_owm_alerts w self lat lon =
     (let req = owm_alerts_request self lat lon in
      (case do { data \<leftarrow> http w req; owm_derived_alerts w data } of
         Some alerts \<Rightarrow> alerts
       | None \<Rightarrow> [],
       [req]))"

subsection \<open>The public operations\<close>

text \<open>
  The provider functions catch every exception themselves, so the outer handlers of the
  public operations are never entered.
\<close>

definition get_current_weather ::
  "world \<Rightarrow> service \<Rightarrow> string \<Rightarrow> string \<Rightarrow> pyval option \<times> request list" where
  "get_current_weather w self city units =
     (case get_vc_current_weather w self city units of
        (Some weather_data, t) \<Rightarrow>
          (if truthy weather_data then (Some weather_data, t)
           else (case get_owm_current_weather w self city units of (r, t') \<Rightarrow> (r, t @ t')))
      | (None, t) \<Rightarrow>
          (case get_owm_current_weather w self city units of (r, t') \<Rightarrow> (r, t @ t')))"


definition get_weather_alerts ::
  "world \<Rightarrow> service \<Rightarrow> string \<Rightarrow> pyval list \<times> request list" where
  "get_weather_alerts w self city =
     (case get_city_coordinates w self city of
        (None, t) \<Rightarrow> ([], t)
      | (Some (lat, lon), t) \<Rightarrow>
          (case get_owm_alerts w self lat lon of
             (owm_alerts, t1) \<Rightarrow>
               (case get_vc_alerts w self city of
                  (vc_alerts, t2) \<Rightarrow> (owm_alerts @ vc_alerts, t @ t1 @ t2))))"

section \<open>The data processor\<close>

text \<open>
  A formatted record is a dictionary again; \<open>int\<close> results of \<open>round\<close> are numbers with an
  integer value.
\<close>

definition format_current_weather :: "world \<Rightarrow> pyval \<Rightarrow> pyval" where
  "format_current_weather w weather_data =
     (if \<not> truthy weather_data then PDict []
      else
        (case do {
            name \<leftarrow> py_get weather_data ''name'' (PStr []);
            sys \<leftarrow> py_get weather_data ''sys'' (PDict []);
            country \<leftarrow> py_get sys ''country'' (PStr []);
            main \<leftarrow> py_get weather_data ''main'' (PDict []);
            temp \<leftarrow> py_get main ''temp'' (PNum 0);
            temperature \<leftarrow> round_val temp;
            feels \<leftarrow> py_get main ''feels_like'' (PNum 0);
            feels_like \<leftarrow> round_val feels;
            weather \<leftarrow> py_get weather_data ''weather'' (PList [PDict []]);
            first \<leftarrow> py_first weather;
            description \<leftarrow> py_get first ''description'' (PStr []);
            humidity \<leftarrow> py_get main ''humidity'' (PNum 0);
            pressure_v \<leftarrow> py_get main ''pressure'' (PNum 0);
            pressure \<leftarrow> round_val pressure_v;
            wind \<leftarrow> py_get weather_data ''wind'' (PDict []);
            speed \<leftarrow> py_get wind ''speed'' (PNum 0);
            wind_speed \<leftarrow> round1_val speed;
            wind_direction \<leftarrow> py_get wind ''deg'' (PNum 0);
            visibility_m \<leftarrow> py_get weather_data ''visibility'' (PNum 0);
            visibility_km \<leftarrow> py_div visibility_m 1000;
            visibility \<leftarrow> round1_val visibility_km;
            sunrise_v \<leftarrow> py_get sys ''sunrise'' (PNum 0);
            sunrise \<leftarrow> py_fromtimestamp w sunrise_v;
            sunset_v \<leftarrow> py_get sys ''sunset'' (PNum 0);
            sunset \<leftarrow> py_fromtimestamp w sunset_v;
            source \<leftarrow> py_get weather_data ''source'' (PStr ''unknown'');
            Some (PDict
              [(''city'', name),
               (''country'', country),
               (''temperature'', PNum (of_int temperature)),
               (''feels_like'', PNum (of_int feels_like)),
               (''description'', description),
               (''humidity'', humidity),
               (''pressure'', PNum (of_int pressure)),
               (''wind_speed'', PNum wind_speed),
               (''wind_direction'', wind_direction),
               (''visibility'', PNum visibility),
               (''sunrise'', PStr (lt_hm sunrise)),
               (''sunset'', PStr (lt_hm sunset)),
               (''timestamp'', PStr (now_strftime w)),
               (''source'', source)])
          } of
           Some formatted \<Rightarrow> formatted
         | None \<Rightarrow> PDict []))"

text \<open>One day of a forecast that is already daily (the primary provider's).\<close>

definition format_daily_item :: "world \<Rightarrow> pyval \<Rightarrow> pyval option" where
  "format_daily_item w item = do {
     dt \<leftarrow> py_item item ''dt'';
     forecast_date \<leftarrow> py_fromtimestamp w dt;
     main \<leftarrow> py_item item ''main'';
     temp_min \<leftarrow> py_item main ''temp_min'';
     min_temp \<leftarrow> round_val temp_min;
     temp_max \<leftarrow> py_item main ''temp_max'';
     max_temp \<leftarrow> round_val temp_max;
     weather \<leftarrow> py_item item ''weather'';
     first \<leftarrow> py_first weather;
     description \<leftarrow> py_item first ''description'';
     humidity \<leftarrow> py_item main ''humidity'';
     wind \<leftarrow> py_item item ''wind'';
     speed \<leftarrow> py_item wind ''speed'';
     wind_speed \<leftarrow> round1_val speed;
     pressure_v \<leftarrow> py_item main ''pressure'';
     pressure \<leftarrow> round_val pressure_v;
     pop_v \<leftarrow> py_get item ''pop'' (PNum 0);
     pop_100 \<leftarrow> py_mul_int pop_v 100;
     pop \<leftarrow> round_val pop_100;
     Some (PDict
       [(''date'', PStr (lt_ymd forecast_date)),
        (''day_name'', PStr (lt_day_name forecast_date)),
        (''min_temp'', PNum (of_int min_temp)),
        (''max_temp'', PNum (of_int max_temp)),
        (''description'', description),
        (''humidity'', humidity),
        (''wind_speed'', PNum wind_speed),
        (''pressure'', PNum (of_int pressure)),
        (''pop'', PNum (of_int pop))])
   }"

text \<open>
  The grouping loop: \<open>daily_data\<close> is a dictionary from dates to lists of items, in the
  order in which the dates were first seen.
\<close>

definition add_to_date :: "string \<Rightarrow> pyval \<Rightarrow> (string \<times> pyval list) list \<Rightarrow> (string \<times> pyval list) list"
  where
  "add_to_date date item daily_data =
     (let daily_data' =
        (if map_of daily_data date = None then daily_data @ [(date, [])] else daily_data)
      in AList.map_entry date (\<lambda>items. items @ [item]) daily_data')"

text \<open>\<open>datetime.fromtimestamp(item['dt']).strftime('%Y-%m-%d')\<close>.\<close>

definition item_date :: "world \<Rightarrow> pyval \<Rightarrow> string option" where
  "item_date w item = do {
     dt \<leftarrow> py_item item ''dt'';
     t \<leftarrow> py_fromtimestamp w dt;
     Some (lt_ymd t)
   }"

fun group_by_date ::
  "world \<Rightarrow> pyval list \<Rightarrow> (string \<times> pyval list) list \<Rightarrow> (string \<times> pyval list) list option"
  where
  "group_by_date w [] daily_data = Some daily_data"
| "group_by_date w (item # rest) daily_data =
     (case item_date w item of
        None \<Rightarrow> None
      | Some date \<Rightarrow> group_by_date w rest (add_to_date date item daily_data))"

text \<open>\<open>max(set(descriptions), key=descriptions.count)\<close>.\<close>

definition most_frequent :: "world \<Rightarrow> pyval list \<Rightarrow> pyval option" where
  "most_frequent w descriptions =
     (if list_all hashable descriptions
      then max_key (py_count descriptions) (set_order w descriptions)
      else None)"

text \<open>
  What the comprehensions and generators read from one item: \<open>item['main'][k]\<close>,
  \<open>item['weather'][0]['description']\<close>, \<open>item['wind']['speed']\<close>, \<open>item.get('pop', 0)\<close>.
\<close>

definition item_main :: "string \<Rightarrow> pyval \<Rightarrow> pyval option" where
  "item_main k item = do { main \<leftarrow> py_item item ''main''; py_item main k }"

definition item_description :: "pyval \<Rightarrow> pyval option" where
  "item_description item = do {
     weather \<leftarrow> py_item item ''weather'';
     first \<leftarrow> py_first weather;
     py_item first ''description''
   }"

definition item_wind_speed :: "pyval \<Rightarrow> pyval option" where
  "item_wind_speed item = do { wind \<leftarrow> py_item item ''wind''; py_item wind ''speed'' }"

definition item_pop :: "pyval \<Rightarrow> pyval option" where
  "item_pop item = py_get item ''pop'' (PNum 0)"

text \<open>\<open>sum(f(item) for item in day_items) / len(day_items)\<close>.\<close>

definition mean_of :: "(pyval \<Rightarrow> pyval option) \<Rightarrow> pyval list \<Rightarrow> rat option" where
  "mean_of f day_items = do {
     vs \<leftarrow> those (map f day_items);
     total \<leftarrow> py_sum vs;
     div_len total (length day_items)
   }"

text \<open>The record of one date, from the items of that date.\<close>

definition aggregate_day :: "world \<Rightarrow> string \<Rightarrow> pyval list \<Rightarrow> pyval option" where
  "aggregate_day w date day_items = do {
     temps \<leftarrow> those (map (item_main ''temp'') day_items);
     descriptions \<leftarrow> those (map item_description day_items);
     weekday \<leftarrow> strptime_day_name w date;
     lo \<leftarrow> py_min temps;
     hi \<leftarrow> py_max temps;
     description \<leftarrow> most_frequent w descriptions;
     humidity \<leftarrow> mean_of (item_main ''humidity'') day_items;
     wind_speed \<leftarrow> mean_of item_wind_speed day_items;
     pressure \<leftarrow> mean_of (item_main ''pressure'') day_items;
     pop \<leftarrow> mean_of item_pop day_items;
     Some (PDict
       [(''date'', PStr date),
        (''day_name'', PStr weekday),
        (''min_temp'', PNum (of_int (py_round lo))),
        (''max_temp'', PNum (of_int (py_round hi))),
        (''description'', description),
        (''humidity'', PNum (of_int (py_round humidity))),
        (''wind_speed'', PNum (py_round1 wind_speed)),
        (''pressure'', PNum (of_int (py_round pressure))),
        (''pop'', PNum (of_int (py_round (pop * 100))))])
   }"

text \<open>
  The second loop, over the first \<open>days\<close> dates, with its \<open>break\<close> once \<open>days\<close> records
  are there.
\<close>

fun aggregate_loop ::
  "world \<Rightarrow> int \<Rightarrow> (string \<times> pyval list) list \<Rightarrow> pyval list \<Rightarrow> pyval list option" where
  "aggregate_loop w days [] forecasts = Some forecasts"
| "aggregate_loop w days ((date, day_items) # rest) forecasts =
     (if days \<le> int (length forecasts) then Some forecasts
      else
        (case aggregate_day w date day_items of
           None \<Rightarrow> None
         | Some day \<Rightarrow> aggregate_loop w days rest (forecasts @ [day])))"


definition format_forecast_data :: "world \<Rightarrow> pyval \<Rightarrow> int \<Rightarrow> pyval list" where
  "format_forecast_data w forecast_data days =
     (if \<not> truthy forecast_data then []
      else
        (case do {
            forecast_list \<leftarrow> py_get forecast_data ''list'' (PList []);
            source \<leftarrow> py_get forecast_data ''source'' PNone;
            if source = PStr ''visual_crossing'' then do {
              items \<leftarrow> py_slice_iter forecast_list days;
              those (map (format_daily_item w) items)
            } else do {
              items \<leftarrow> py_iter forecast_list;
              daily_data \<leftarrow> group_by_date w items [];
              aggregate_loop w days (py_slice_to days daily_data) []
            }
          } of
           Some forecasts \<Rightarrow> forecasts
         | None \<Rightarrow> []))"

text \<open>
  What a Python \<open>set\<close> guarantees about its iteration: it yields elements that were put
  in, and every element put in is equal to one it yields. The order is not specified.
\<close>

definition set_order_ok :: "world \<Rightarrow> pyval list \<Rightarrow> bool" where
  "set_order_ok w xs =
     (list_all (\<lambda>y. y \<in> set xs) (set_order w xs) \<and>
      list_all (\<lambda>x. list_ex (py_eq x) (set_order w xs)) xs)"

text \<open>
  The tie-break as the specification words it: of the descriptions that occur most often,
  the one encountered first in the samples.
\<close>

definition first_encountered_most_frequent :: "pyval list \<Rightarrow> pyval option" where
  "first_encountered_most_frequent descriptions = max_key (py_count descriptions) descriptions"

text \<open>A forecast of the secondary provider that holds the given samples.\<close>

definition owm_forecast :: "pyval list \<Rightarrow> pyval" where
  "owm_forecast samples = PDict [(''list'', PList samples), (''source'', PStr ''openweathermap'')]"

text \<open>
  The defaults of \<open>format_current_weather\<close>, written as data: a dictionary with an entry
  added for each key of the defaults that it lacks, and the input of
  \<open>format_current_weather\<close> with all the defaults filled in, at the top level and inside
  \<open>main\<close>, \<open>sys\<close>, \<open>wind\<close> and the first element of \<open>weather\<close>.
\<close>

fun fill_in :: "(string \<times> pyval) list \<Rightarrow> (string \<times> pyval) list \<Rightarrow> (string \<times> pyval) list" where
  "fill_in [] kvs = kvs"
| "fill_in ((k, v) # defaults) kvs =
     fill_in defaults (if map_of kvs k = None then kvs @ [(k, v)] else kvs)"

fun fill_dict :: "(string \<times> pyval) list \<Rightarrow> pyval \<Rightarrow> pyval" where
  "fill_dict defaults (PDict kvs) = PDict (fill_in defaults kvs)"
| "fill_dict defaults v = v"

fun fill_first :: "(string \<times> pyval) list \<Rightarrow> pyval \<Rightarrow> pyval" where
  "fill_first defaults (PList (x # xs)) = PList (fill_dict defaults x # xs)"
| "fill_first defaults v = v"

definition top_defaults :: "(string \<times> pyval) list" where
  "top_defaults =
     [(''name'', PStr []),
      (''sys'', PDict []),
      (''main'', PDict []),
      (''weather'', PList [PDict []]),
      (''wind'', PDict []),
      (''visibility'', PNum 0),
      (''source'', PStr ''unknown'')]"

definition main_defaults :: "(string \<times> pyval) list" where
  "main_defaults =
     [(''temp'', PNum 0), (''feels_like'', PNum 0), (''humidity'', PNum 0), (''pressure'', PNum 0)]"

definition sys_defaults :: "(string \<times> pyval) list" where
  "sys_defaults = [(''country'', PStr []), (''sunrise'', PNum 0), (''sunset'', PNum 0)]"

definition wind_defaults :: "(string \<times> pyval) list" where
  "wind_defaults = [(''speed'', PNum 0), (''deg'', PNum 0)]"

definition weather_defaults :: "(string \<times> pyval) list" where
  "weather_defaults = [(''description'', PStr [])]"

definition fill_nested :: "string \<Rightarrow> pyval \<Rightarrow> pyval" where
  "fill_nested k v =
     (if k = ''main'' then fill_dict main_defaults v
      else if k = ''sys'' then fill_dict sys_defaults v
      else if k = ''wind'' then fill_dict wind_defaults v
      else if k = ''weather'' then fill_first weather_defaults v
      else v)"

definition with_current_defaults :: "(string \<times> pyval) list \<Rightarrow> (string \<times> pyval) list" where
  "with_current_defaults kvs = map (\<lambda>kv. (fst kv, fill_nested (fst kv) (snd kv))) (fill_in top_defaults kvs)"

text \<open>The display record in which every field has its default.\<close>

definition default_display :: "world \<Rightarrow> local_time \<Rightarrow> pyval" where
  "default_display w epoch = PDict
     [(''city'', PStr []),
      (''country'', PStr []),
      (''temperature'', PNum 0),
      (''feels_like'', PNum 0),
      (''description'', PStr []),
      (''humidity'', PNum 0),
      (''pressure'', PNum 0),
      (''wind_speed'', PNum 0),
      (''wind_direction'', PNum 0),
      (''visibility'', PNum 0),
      (''sunrise'', PStr (lt_hm epoch)),
      (''sunset'', PStr (lt_hm epoch)),
      (''timestamp'', PStr (now_strftime w)),
      (''source'', PStr ''unknown'')]"

section \<open>Icon selection\<close>

text \<open>
  An icon is the list of code points of the string literal in the source file.
\<close>

type_synonym icon = "nat list"

definition icon_map :: "(string \<times> icon) list" where
  "icon_map =
    [(''clear'', [0xE2, 0x2DC, 0x20AC, 0xEF, 0xB8]),
     (''sunny'', [0xE2, 0x2DC, 0x20AC, 0xEF, 0xB8]),
     (''partly cloudy'', [0xE2, 0x203A, 0x2026]),
     (''few clouds'', [0x11F, 0x178, 0x152, 0xA4, 0xEF, 0xB8]),
     (''scattered clouds'', [0xE2, 0x203A, 0x2026]),
     (''broken clouds'', [0xE2, 0x2DC, 0xEF, 0xB8]),
     (''overcast'', [0xE2, 0x2DC, 0xEF, 0xB8]),
     (''cloudy'', [0xE2, 0x2DC, 0xEF, 0xB8]),
     (''light rain'', [0x11F, 0x178, 0x152, 0xA6, 0xEF, 0xB8]),
     (''moderate rain'', [0x11F, 0x178, 0x152, 0xA7, 0xEF, 0xB8]),
     (''heavy rain'', [0xE2, 0x203A, 0x2C6, 0xEF, 0xB8]),
     (''rain'', [0x11F, 0x178, 0x152, 0xA7, 0xEF, 0xB8]),
     (''thunderstorm'', [0xE2, 0x203A, 0x2C6, 0xEF, 0xB8]),
     (''snow'', [0xE2, 0x201E, 0xEF, 0xB8]),
     (''sleet'', [0x11F, 0x178, 0x152, 0xA8, 0xEF, 0xB8]),
     (''mist'', [0x11F, 0x178, 0x152, 0xAB, 0xEF, 0xB8]),
     (''fog'', [0x11F, 0x178, 0x152, 0xAB, 0xEF, 0xB8]),
     (''haze'', [0x11F, 0x178, 0x152, 0xAB, 0xEF, 0xB8]),
     (''drizzle'', [0x11F, 0x178, 0x152, 0xA6, 0xEF, 0xB8]),
     (''shower'', [0x11F, 0x178, 0x152, 0xA6, 0xEF, 0xB8])]"

definition default_icon :: icon where
  "default_icon = [0x11F, 0x178, 0x152, 0xA4, 0xEF, 0xB8]"

text \<open>
  The loop \<open>for key, icon in icon_map.items(): if key in description_lower: return icon\<close>;
  \<open>None\<close> when the loop ends without returning.
\<close>

fun icon_loop :: "(string \<times> icon) list \<Rightarrow> string \<Rightarrow> icon option" where
  "icon_loop [] d = None"
| "icon_loop ((key, icn) # rest) d = (if sublist key d then Some icn else icon_loop rest d)"

definition get_weather_icon :: "string \<Rightarrow> icon" where
  "get_weather_icon description =
     (let description_lower = lower description in
      case icon_loop icon_map description_lower of
        Some icn \<Rightarrow> icn
      | None \<Rightarrow> default_icon)"

section \<open>Example worlds and payloads\<close>

text \<open>
  A world at the start of the epoch, in UTC, that knows the first two days; every request
  fails in it. A set is iterated in the order in which its elements were first added.
\<close>

definition two_digits :: "nat \<Rightarrow> string" where
  "two_digits n = [''0123456789'' ! (n div 10), ''0123456789'' ! (n mod 10)]"

definition utc_first_days :: "rat \<Rightarrow> local_time option" where
  "utc_first_days t =
     (let s = nat \<lfloor>t\<rfloor> mod 86400;
          hm = two_digits (s div 3600) @ '':'' @ two_digits (s mod 3600 div 60)
      in if 0 \<le> t \<and> t < 86400 then
           Some \<lparr>lt_ymd = ''1970-01-01'', lt_day_name = ''Thursday'', lt_hm = hm\<rparr>
         else if 86400 \<le> t \<and> t < 172800 then
           Some \<lparr>lt_ymd = ''1970-01-02'', lt_day_name = ''Friday'', lt_hm = hm\<rparr>
         else None)"

fun first_seen :: "pyval list \<Rightarrow> pyval list" where
  "first_seen [] = []"
| "first_seen (x # xs) = x # first_seen (filter (\<lambda>y. \<not> py_eq y x) xs)"

definition quiet_world :: world where
  "quiet_world =
     \<lparr>http = (\<lambda>req. None),
      now_timestamp = 0,
      now_isoformat = ''1970-01-01T00:00:00'',
      now_strftime = ''1970-01-01 00:00:00'',
      end_date = (\<lambda>days. ''1970-01-10''),
      fromtimestamp = utc_first_days,
      fromisoformat =
        (\<lambda>s. if s = ''1970-01-01'' then Some 0
             else if s = ''1970-01-02'' then Some 86400 else None),
      strptime_today = (\<lambda>s. None),
      strptime_day_name =
        (\<lambda>s. if s = ''1970-01-01'' then Some ''Thursday''
             else if s = ''1970-01-02'' then Some ''Friday'' else None),
      py_str = (\<lambda>v. []),
      set_order = first_seen\<rparr>"

definition example_service :: service where
  "example_service = \<lparr>visual_crossing_key = ''vc-key'', openweather_key = ''owm-key''\<rparr>"

text \<open>A payload of the secondary provider for London: 15 degrees.\<close>

definition london_owm :: pyval where
  "london_owm = PDict
     [(''name'', PStr ''London''),
      (''main'', PDict
         [(''temp'', PNum 15),
          (''feels_like'', PNum (29 / 2)),
          (''humidity'', PNum 80),
          (''pressure'', PNum 1012)]),
      (''weather'', PList [PDict [(''main'', PStr ''Clouds''), (''description'', PStr ''overcast clouds'')]]),
      (''wind'', PDict [(''speed'', PNum (33 / 8)), (''deg'', PNum 250)]),
      (''visibility'', PNum 10000),
      (''sys'', PDict [(''country'', PStr ''GB''), (''sunrise'', PNum 21600), (''sunset'', PNum 64800)])]"

text \<open>The primary provider is down (every request to it fails), the secondary answers.\<close>

definition primary_down_world :: world where
  "primary_down_world =
     quiet_world\<lparr>http :=
       (\<lambda>req. if req = owm_current_request example_service ''London'' ''metric''
              then Some london_owm else None)\<rparr>"



text \<open>The record the service builds from \<open>london_vc\<close>.\<close>

definition london_vc_record :: pyval where
  "london_vc_record = PDict
     [(''source'', PStr ''visual_crossing''),
      (''name'', PStr ''London''),
      (''country'', PStr ''United Kingdom''),
      (''main'', PDict
         [(''temp'', PNum 20),
          (''feels_like'', PNum (39 / 2)),
          (''humidity'', PNum (131 / 2)),
          (''pressure'', PNum (1015917 / 1000)),
          (''temp_min'', PNum 18),
          (''temp_max'', PNum 22)]),
      (''weather'', PList [PDict [(''description'', PStr ''Partially cloudy''), (''icon'', PStr ''02d'')]]),
      (''wind'', PDict [(''speed'', PNum (25 / 2)), (''deg'', PNum 240)]),
      (''visibility'', PNum 10000),
      (''dt'', PNum 0),
      (''sys'', PDict
         [(''country'', PStr ''United Kingdom''), (''sunrise'', PNum 0), (''sunset'', PNum 0)]),
      (''alerts'', PList [])]"

text \<open>
  Miami: the primary provider has a flood alert. In the first world geocoding fails, in
  the second only the secondary provider's weather endpoint fails.
\<close>

definition flood_payload :: pyval where
  "flood_payload = PDict
     [(''alerts'', PList
         [PDict
            [(''event'', PStr ''Flood Warning''),
             (''description'', PStr ''Flooding expected''),
             (''severity'', PStr ''Severe''),
             (''onset'', PStr ''1970-01-01T06:00:00''),
             (''expires'', PStr ''1970-01-02T06:00:00'')]])]"

definition flood_alert :: pyval where
  "flood_alert = PDict
     [(''event'', PStr ''Flood Warning''),
      (''description'', PStr ''Flooding expected''),
      (''severity'', PStr ''Severe''),
      (''start'', PStr ''1970-01-01T06:00:00''),
      (''end'', PStr ''1970-01-02T06:00:00''),
      (''source'', PStr ''Visual Crossing'')]"

definition miami_geocode :: pyval where
  "miami_geocode = PList
     [PDict
        [(''name'', PStr ''Miami''),
         (''lat'', PNum (644 / 25)),
         (''lon'', PNum (- (401 / 5))),
         (''country'', PStr ''US'')]]"

definition geocoding_down_world :: world where
  "geocoding_down_world =
     quiet_world\<lparr>http :=
       (\<lambda>req. if req = vc_alerts_request example_service ''Miami''
              then Some flood_payload else None)\<rparr>"

definition secondary_down_world :: world where
  "secondary_down_world =
     quiet_world\<lparr>http :=
       (\<lambda>req. if req = vc_alerts_request example_service ''Miami'' then Some flood_payload
              else if req = geocoding_request example_service ''Miami'' then Some miami_geocode
              else None)\<rparr>"

text \<open>What \<open>format_current_weather\<close> makes of \<open>london_vc_record\<close>.\<close>

definition london_formatted :: pyval where
  "london_formatted = PDict
     [(''city'', PStr ''London''),
      (''country'', PStr ''United Kingdom''),
      (''temperature'', PNum 20),
      (''feels_like'', PNum 20),
      (''description'', PStr ''Partially cloudy''),
      (''humidity'', PNum (131 / 2)),
      (''pressure'', PNum 1016),
      (''wind_speed'', PNum (25 / 2)),
      (''wind_direction'', PNum 240),
      (''visibility'', PNum 10),
      (''sunrise'', PStr ''00:00''),
      (''sunset'', PStr ''00:00''),
      (''timestamp'', PStr ''1970-01-01 00:00:00''),
      (''source'', PStr ''visual_crossing'')]"

text \<open>
  Three-hourly samples of the secondary provider: the time, the temperature and the
  description vary.
\<close>

definition owm_sample :: "rat \<Rightarrow> rat \<Rightarrow> string \<Rightarrow> pyval" where
  "owm_sample dt temp description = PDict
     [(''dt'', PNum dt),
      (''main'', PDict [(''temp'', PNum temp), (''humidity'', PNum 80), (''pressure'', PNum 1012)]),
      (''weather'', PList [PDict [(''description'', PStr description)]]),
      (''wind'', PDict [(''speed'', PNum (33 / 8))]),
      (''pop'', PNum (1 / 4))]"

text \<open>The eight samples of one day, with the temperatures 10, 12, 14, 16, 15, 13, 11, 9.\<close>

definition one_day_samples :: "pyval list" where
  "one_day_samples =
     [owm_sample 0 10 ''clear sky'',
      owm_sample 10800 12 ''clear sky'',
      owm_sample 21600 14 ''clear sky'',
      owm_sample 32400 16 ''light rain'',
      owm_sample 43200 15 ''light rain'',
      owm_sample 54000 13 ''light rain'',
      owm_sample 64800 11 ''light rain'',
      owm_sample 75600 9 ''light rain'']"

definition one_day_forecast :: pyval where
  "one_day_forecast = owm_forecast one_day_samples"

definition one_day_formatted :: pyval where
  "one_day_formatted = PDict
     [(''date'', PStr ''1970-01-01''),
      (''day_name'', PStr ''Thursday''),
      (''min_temp'', PNum 9),
      (''max_temp'', PNum 16),
      (''description'', PStr ''light rain''),
      (''humidity'', PNum 80),
      (''wind_speed'', PNum (41 / 10)),
      (''pressure'', PNum 1012),
      (''pop'', PNum 25)]"





text \<open>
  Two samples of one day whose descriptions occur once each, and a world in which a set
  is iterated in the reverse of the order in which its elements were first added.
\<close>

definition tie_samples :: "pyval list" where
  "tie_samples = [owm_sample 0 10 ''light rain'', owm_sample 10800 12 ''clear sky'']"

definition tie_forecast :: pyval where
  "tie_forecast = owm_forecast tie_samples"

definition last_seen_world :: world where
  "last_seen_world = quiet_world\<lparr>set_order := (\<lambda>xs. rev (first_seen xs))\<rparr>"

definition tie_formatted :: "string \<Rightarrow> pyval" where
  "tie_formatted description = PDict
     [(''date'', PStr ''1970-01-01''),
      (''day_name'', PStr ''Thursday''),
      (''min_temp'', PNum 10),
      (''max_temp'', PNum 12),
      (''description'', PStr description),
      (''humidity'', PNum 80),
      (''wind_speed'', PNum (41 / 10)),
      (''pressure'', PNum 1012),
      (''pop'', PNum 25)]"

text \<open>A sample of the secondary provider that has no \<open>wind\<close>.\<close>

definition windless_sample :: pyval where
  "windless_sample = PDict
     [(''dt'', PNum 0),
      (''main'', PDict [(''temp'', PNum 10), (''humidity'', PNum 80), (''pressure'', PNum 1012)]),
      (''weather'', PList [PDict [(''description'', PStr ''clear sky'')]]),
      (''pop'', PNum (1 / 4))]"

section \<open>Properties of icon selection\<close>

lemma icon_loop_Some:
  "icon_loop tbl d = Some i \<Longrightarrow>
   \<exists>n < length tbl. sublist (fst (tbl ! n)) d \<and> (\<forall>j<n. \<not> sublist (fst (tbl ! j)) d) \<and>
     i = snd (tbl ! n)"
proof (induction tbl)
  case Nil
  then show ?case by simp
next
  case (Cons p rest)
  obtain key icn where p: "p = (key, icn)" by (cases p)
  show ?case
  proof (cases "sublist key d")
    case True
    with Cons.prems p have "i = icn" by simp
    with True p show ?thesis by (intro exI[of _ 0]) simp
  next
    case False
    with Cons.prems p have "icon_loop rest d = Some i" by simp
    from Cons.IH[OF this] obtain n where n: "n < length rest" "sublist (fst (rest ! n)) d"
      "\<forall>j<n. \<not> sublist (fst (rest ! j)) d" "i = snd (rest ! n)" by blast
    have "\<forall>j<Suc n. \<not> sublist (fst ((p # rest) ! j)) d"
      using n(3) False p by (auto simp: less_Suc_eq_0_disj)
    with n show ?thesis by (intro exI[of _ "Suc n"]) simp
  qed
qed

lemma icon_loop_None:
  "icon_loop tbl d = None \<longleftrightarrow> (\<forall>k \<in> set (map fst tbl). \<not> sublist k d)"
proof (induction tbl)
  case Nil
  then show ?case by simp
next
  case (Cons p rest)
  obtain key icn where p: "p = (key, icn)" by (cases p)
  show ?case using Cons.IH by (simp add: p)
qed

lemma icon_map_length: "length icon_map = 20"
  by (simp add: icon_map_def)

lemma icon_map_take8:
  assumes lt: "n < 8"
  shows "fst (icon_map ! n) \<in> set (map fst (take 8 icon_map))"
proof -
  from lt have "n < length (take 8 icon_map)" by (simp add: icon_map_length)
  then have "take 8 icon_map ! n \<in> set (take 8 icon_map)" by (rule nth_mem)
  with lt have "icon_map ! n \<in> set (take 8 icon_map)" by simp
  then show ?thesis unfolding set_map by (rule imageI)
qed

lemma lower_Light_Rain: "lower ''Light Rain'' = ''light rain''"
  by code_simp

lemma lower_Cloudy: "lower ''Cloudy with light rain'' = ''cloudy with light rain''"
  by code_simp

lemma light_rain_occurs: "sublist ''light rain'' (lower ''Light Rain'')"
  by (simp add: lower_Light_Rain)

lemma light_rain_not_preempted:
  "\<forall>k \<in> set (map fst (take 8 icon_map)). \<not> sublist k (lower ''Light Rain'')"
  by (simp add: lower_Light_Rain icon_map_def sublist_code)

lemma cloudy_icon:
  "get_weather_icon ''Cloudy with light rain'' = [0xE2, 0x2DC, 0xEF, 0xB8]"
  by (simp add: get_weather_icon_def lower_Cloudy icon_map_def sublist_code)

text \<open>
  Claim C6, as stated, fails in its example: a description that contains \<open>light rain\<close>
  (and so \<open>rain\<close>) gets the icon of an earlier keyword of the table when one occurs in
  it, here \<open>cloudy\<close> (entry 7), not the icon of \<open>light rain\<close> (entry 8). The default icon
  is the icon of the entry \<open>few clouds\<close> (entry 3), not that of the entry
  \<open>partly cloudy\<close> (entry 2).
\<close>

theorem get_weather_icon_light_rain_counterexample:
  "sublist ''light rain'' (lower ''Cloudy with light rain'') \<and>
   sublist ''rain'' (lower ''Cloudy with light rain'') \<and>
   get_weather_icon ''Cloudy with light rain'' = snd (icon_map ! 7) \<and>
   get_weather_icon ''Cloudy with light rain'' \<noteq> snd (icon_map ! 8) \<and>
   fst (icon_map ! 2) = ''partly cloudy'' \<and> default_icon \<noteq> snd (icon_map ! 2) \<and>
   fst (icon_map ! 3) = ''few clouds'' \<and> default_icon = snd (icon_map ! 3)"
proof -
  have "sublist ''light rain'' (lower ''Cloudy with light rain'')"
    "sublist ''rain'' (lower ''Cloudy with light rain'')"
    by (simp_all add: lower_Cloudy sublist_code)
  moreover have "snd (icon_map ! 7) = [0xE2, 0x2DC, 0xEF, 0xB8]"
    "snd (icon_map ! 8) = [0x11F, 0x178, 0x152, 0xA6, 0xEF, 0xB8]"
    "fst (icon_map ! 2) = ''partly cloudy''" "default_icon \<noteq> snd (icon_map ! 2)"
    "fst (icon_map ! 3) = ''few clouds''" "default_icon = snd (icon_map ! 3)"
    by (simp_all add: icon_map_def default_icon_def)
  ultimately show ?thesis using cloudy_icon by simp
qed

text \<open>
  Claim C6, amended. The icon is a function of the description alone. The keywords of the
  table are tried in the table's order against the lower-cased description: the entry
  selected is the first one whose keyword occurs in it as a substring, and when no
  keyword occurs the result is the default icon, which is the icon of \<open>few clouds\<close>. The
  keyword \<open>light rain\<close> (entry 8) stands before \<open>rain\<close> (entry 11): for a description
  containing \<open>light rain\<close> the selected entry is never later than entry 8, so the entry
  \<open>rain\<close> never decides, and it is entry 8 itself unless one of the eight keywords before
  it occurs too.
\<close>

theorem get_weather_icon_first_match:
  "((\<exists>n < length icon_map.
        sublist (fst (icon_map ! n)) (lower d) \<and>
        (\<forall>j<n. \<not> sublist (fst (icon_map ! j)) (lower d)) \<and>
        get_weather_icon d = snd (icon_map ! n))
    \<or> ((\<forall>k \<in> set (map fst icon_map). \<not> sublist k (lower d)) \<and>
        get_weather_icon d = default_icon))
   \<and> default_icon = snd (icon_map ! 3)
   \<and> fst (icon_map ! 8) = ''light rain'' \<and> fst (icon_map ! 11) = ''rain''
   \<and> (sublist ''light rain'' (lower d) \<longrightarrow>
        (\<exists>n \<le> 8. sublist (fst (icon_map ! n)) (lower d) \<and>
                 get_weather_icon d = snd (icon_map ! n)) \<and>
        ((\<forall>k \<in> set (map fst (take 8 icon_map)). \<not> sublist k (lower d)) \<longrightarrow>
           get_weather_icon d = snd (icon_map ! 8)))"
proof -
  let ?d = "lower d"
  have keys: "fst (icon_map ! 8) = ''light rain''" "fst (icon_map ! 11) = ''rain''"
    by (simp_all add: icon_map_def)
  have dflt: "default_icon = snd (icon_map ! 3)"
    by (simp add: icon_map_def default_icon_def)
  have general:
    "(\<exists>n < length icon_map. sublist (fst (icon_map ! n)) ?d \<and>
        (\<forall>j<n. \<not> sublist (fst (icon_map ! j)) ?d) \<and> get_weather_icon d = snd (icon_map ! n))
     \<or> ((\<forall>k \<in> set (map fst icon_map). \<not> sublist k ?d) \<and> get_weather_icon d = default_icon)"
  proof (cases "icon_loop icon_map ?d")
    case None
    then have "\<forall>k \<in> set (map fst icon_map). \<not> sublist k ?d"
      by (simp only: icon_loop_None)
    moreover from None have "get_weather_icon d = default_icon"
      by (simp add: get_weather_icon_def)
    ultimately show ?thesis by blast
  next
    case (Some i)
    then have "get_weather_icon d = i" by (simp add: get_weather_icon_def)
    with icon_loop_Some[OF Some] show ?thesis by blast
  qed
  have light: "(\<exists>n \<le> 8. sublist (fst (icon_map ! n)) ?d \<and> get_weather_icon d = snd (icon_map ! n)) \<and>
        ((\<forall>k \<in> set (map fst (take 8 icon_map)). \<not> sublist k ?d) \<longrightarrow>
           get_weather_icon d = snd (icon_map ! 8))"
    if lr: "sublist ''light rain'' ?d"
  proof -
    have in_keys: "''light rain'' \<in> set (map fst icon_map)"
      by (simp add: icon_map_def)
    with lr have "\<not> (\<forall>k \<in> set (map fst icon_map). \<not> sublist k ?d)" by blast
    with general obtain n where n: "n < length icon_map" "sublist (fst (icon_map ! n)) ?d"
      "\<forall>j<n. \<not> sublist (fst (icon_map ! j)) ?d" "get_weather_icon d = snd (icon_map ! n)"
      by blast
    have le: "n \<le> 8"
    proof (rule ccontr)
      assume "\<not> n \<le> 8"
      then have "8 < n" by simp
      with n(3) have "\<not> sublist (fst (icon_map ! 8)) ?d" by blast
      with lr keys(1) show False by simp
    qed
    have "n = 8" if none: "\<forall>k \<in> set (map fst (take 8 icon_map)). \<not> sublist k ?d"
    proof (rule ccontr)
      assume "n \<noteq> 8"
      with le have lt: "n < 8" by simp
      then have "fst (icon_map ! n) \<in> set (map fst (take 8 icon_map))"
        by (rule icon_map_take8)
      with none n(2) show False by blast
    qed
    with n le show ?thesis by blast
  qed
  from general dflt keys light show ?thesis by blast
qed

theorem get_weather_icon_first_match_witness:
  "sublist ''light rain'' (lower ''Light Rain'') \<and>
   get_weather_icon ''Light Rain'' = [0x11F, 0x178, 0x152, 0xA6, 0xEF, 0xB8]"
proof -
  have "get_weather_icon ''Light Rain'' = snd (icon_map ! 8)"
    using get_weather_icon_first_match [of "''Light Rain''"]
      light_rain_occurs light_rain_not_preempted by blast
  then show ?thesis
    using light_rain_occurs by (simp add: icon_map_def)
qed

section \<open>Properties of rounding\<close>

lemma floor_rat_numeral_div [simp]:
  "\<lfloor>numeral a / numeral b :: rat\<rfloor> = numeral a div numeral b"
  by (metis floor_divide_of_int_eq of_int_numeral)

lemma floor_rat_neg_numeral_div [simp]:
  "\<lfloor>- (numeral a / numeral b) :: rat\<rfloor> = - numeral a div numeral b"
  by (metis floor_divide_of_int_eq of_int_numeral of_int_minus minus_divide_left)

lemma py_round_of_int [simp]: "py_round (of_int n) = n"
  by (simp add: py_round_def)

lemma py_round_numeral [simp]: "py_round (numeral n) = numeral n"
  using py_round_of_int[of "numeral n"] by simp

lemma py_round_zero [simp]: "py_round 0 = 0"
  using py_round_of_int[of 0] by simp

lemma py_round1_zero [simp]: "py_round1 0 = 0"
  by (simp add: py_round1_def)

lemma py_round_nearest: "\<bar>of_int (py_round x) - x\<bar> \<le> 1 / 2"
proof -
  have "of_int \<lfloor>x\<rfloor> \<le> x" "x < of_int \<lfloor>x\<rfloor> + 1" by linarith+
  then show ?thesis by (auto simp: py_round_def Let_def)
qed

lemma py_round1_nearest: "\<bar>py_round1 x - x\<bar> \<le> 1 / 20"
proof -
  have "\<bar>of_int (py_round (x * 10)) - x * 10\<bar> \<le> 1 / 2" by (rule py_round_nearest)
  then show ?thesis by (simp add: py_round1_def abs_le_iff field_simps)
qed



section \<open>The example clock\<close>

lemma utc_epoch:
  "utc_first_days 0 = Some \<lparr>lt_ymd = ''1970-01-01'', lt_day_name = ''Thursday'', lt_hm = ''00:00''\<rparr>"
  by (simp add: utc_first_days_def two_digits_def)

section \<open>Properties of the current-conditions path\<close>


lemma vc_current_record_truthy:
  assumes "vc_current_record w city data = Some r"
  shows "truthy r"
  using assms by (auto simp: vc_current_record_def bind_eq_Some_conv)



lemma get_vc_current_weather_Some:
  assumes "get_vc_current_weather w self city units = (Some r, t)"
  shows "\<exists>data. http w (vc_current_request self city units) = Some data \<and>
           vc_current_record w city data = Some r"
  using assms
  by (auto simp: get_vc_current_weather_def Let_def bind_eq_Some_conv)

lemma get_vc_current_weather_trace:
  "snd (get_vc_current_weather w self city units) = [vc_current_request self city units]"
  by (simp add: get_vc_current_weather_def Let_def)

lemma get_owm_current_weather_trace:
  "snd (get_owm_current_weather w self city units) = [owm_current_request self city units]"
  by (simp add: get_owm_current_weather_def Let_def)

lemma get_vc_current_weather_truthy:
  assumes "fst (get_vc_current_weather w self city units) = Some r"
  shows "truthy r"
proof -
  from assms have "get_vc_current_weather w self city units =
      (Some r, snd (get_vc_current_weather w self city units))"
    by (metis prod.collapse)
  from get_vc_current_weather_Some[OF this] show ?thesis
    by (auto dest: vc_current_record_truthy)
qed

lemma py_setitem_other:
  assumes "py_setitem d k v = Some d'" and "k' \<noteq> k"
  shows "py_item d' k' = py_item d k'"
  using assms by (cases d) (auto simp: update_conv')

lemma py_setitem_same:
  assumes "py_setitem d k v = Some d'"
  shows "py_item d' k = Some v"
  using assms by (cases d) (auto simp: update_conv')


lemma get_current_weather_cases:
  "get_current_weather w self city units =
     (case fst (get_vc_current_weather w self city units) of
        Some weather_data \<Rightarrow> (Some weather_data, [vc_current_request self city units])
      | None \<Rightarrow>
          (fst (get_owm_current_weather w self city units),
           [vc_current_request self city units, owm_current_request self city units]))"
proof -
  obtain rv tv where vc: "get_vc_current_weather w self city units = (rv, tv)"
    by (cases "get_vc_current_weather w self city units")
  obtain ro to where owm: "get_owm_current_weather w self city units = (ro, to)"
    by (cases "get_owm_current_weather w self city units")
  from vc get_vc_current_weather_trace[of w self city units]
  have tv: "tv = [vc_current_request self city units]" by simp
  from owm get_owm_current_weather_trace[of w self city units]
  have to: "to = [owm_current_request self city units]" by simp
  show ?thesis
  proof (cases rv)
    case None
    with vc owm tv to show ?thesis by (simp add: get_current_weather_def)
  next
    case (Some r)
    with vc have "fst (get_vc_current_weather w self city units) = Some r" by simp
    then have "truthy r" by (rule get_vc_current_weather_truthy)
    with Some vc owm tv to show ?thesis by (simp add: get_current_weather_def)
  qed
qed







lemma primary_down:
  "http primary_down_world (vc_current_request example_service ''London'' ''metric'') = None"
  by (simp add: primary_down_world_def vc_current_request_def owm_current_request_def
      vc_base_url_def owm_base_url_def)

lemma secondary_up:
  "http primary_down_world (owm_current_request example_service ''London'' ''metric'') =
     Some london_owm"
  by (simp add: primary_down_world_def)

text \<open>
  Claim C1. \<open>get_current_weather\<close> first sends the request of the primary provider, for
  the given city and unit system. When the primary provider yields a record, that record
  is returned and no other request is sent. Only when it yields none is the request of
  the secondary provider sent, for the same city and units, and the secondary provider's
  result is returned. The result is \<open>None\<close> exactly when both providers yield none. When
  the request to the primary provider fails and the secondary answers with a temperature
  of 15, the reading returned has temperature 15 and the source tag \<open>openweathermap\<close>.
\<close>

theorem get_current_weather_fallback:
  "get_current_weather w self city units =
     (case fst (get_vc_current_weather w self city units) of
        Some weather_data \<Rightarrow> (Some weather_data, [vc_current_request self city units])
      | None \<Rightarrow>
          (fst (get_owm_current_weather w self city units),
           [vc_current_request self city units, owm_current_request self city units]))
   \<and> (fst (get_current_weather w self city units) = None \<longleftrightarrow>
        fst (get_vc_current_weather w self city units) = None \<and>
        fst (get_owm_current_weather w self city units) = None)
   \<and> (http w (vc_current_request self city units) = None \<longrightarrow>
      http w (owm_current_request self city units) = Some data \<longrightarrow>
      py_path data [''main'', ''temp''] = Some (PNum 15) \<longrightarrow>
        (\<exists>r. get_current_weather w self city units =
               (Some r, [vc_current_request self city units,
                         owm_current_request self city units]) \<and>
             py_path r [''main'', ''temp''] = Some (PNum 15) \<and>
             py_item r ''source'' = Some (PStr ''openweathermap'')))"
proof (intro conjI impI)
  show "get_current_weather w self city units =
     (case fst (get_vc_current_weather w self city units) of
        Some weather_data \<Rightarrow> (Some weather_data, [vc_current_request self city units])
      | None \<Rightarrow>
          (fst (get_owm_current_weather w self city units),
           [vc_current_request self city units, owm_current_request self city units]))"
    by (rule get_current_weather_cases)
next
  show "fst (get_current_weather w self city units) = None \<longleftrightarrow>
        fst (get_vc_current_weather w self city units) = None \<and>
        fst (get_owm_current_weather w self city units) = None"
    by (simp add: get_current_weather_cases split: option.splits)
next
  assume down: "http w (vc_current_request self city units) = None"
    and up: "http w (owm_current_request self city units) = Some data"
    and temp: "py_path data [''main'', ''temp''] = Some (PNum 15)"
  from down have vc: "fst (get_vc_current_weather w self city units) = None"
    by (simp add: get_vc_current_weather_def Let_def)
  from temp obtain kvs where kvs: "data = PDict kvs"
    by (cases data) simp_all
  define r where "r = PDict (AList.update ''source'' (PStr ''openweathermap'') kvs)"
  have set: "py_setitem data ''source'' (PStr ''openweathermap'') = Some r"
    by (simp add: kvs r_def)
  with up have owm: "fst (get_owm_current_weather w self city units) = Some r"
    by (simp add: get_owm_current_weather_def Let_def)
  have "py_item r ''main'' = py_item data ''main''"
    using set by (rule py_setitem_other) simp
  with temp have "py_path r [''main'', ''temp''] = Some (PNum 15)" by simp
  moreover have "py_item r ''source'' = Some (PStr ''openweathermap'')"
    using set by (rule py_setitem_same)
  moreover have "get_current_weather w self city units =
      (Some r, [vc_current_request self city units, owm_current_request self city units])"
    by (simp add: get_current_weather_cases vc owm)
  ultimately show "\<exists>r. get_current_weather w self city units =
               (Some r, [vc_current_request self city units,
                         owm_current_request self city units]) \<and>
             py_path r [''main'', ''temp''] = Some (PNum 15) \<and>
             py_item r ''source'' = Some (PStr ''openweathermap'')"
    by blast
qed

theorem get_current_weather_fallback_witness:
  "http primary_down_world (vc_current_request example_service ''London'' ''metric'') = None \<and>
   (\<exists>r. get_current_weather primary_down_world example_service ''London'' ''metric'' =
          (Some r, [vc_current_request example_service ''London'' ''metric'',
                    owm_current_request example_service ''London'' ''metric'']) \<and>
        py_path r [''main'', ''temp''] = Some (PNum 15) \<and>
        py_item r ''source'' = Some (PStr ''openweathermap''))"
proof -
  have "py_path london_owm [''main'', ''temp''] = Some (PNum 15)"
    by (simp add: london_owm_def)
  with get_current_weather_fallback
    [of primary_down_world example_service "''London''" "''metric''" london_owm]
    primary_down secondary_up
  show ?thesis by blast
qed

section \<open>Properties of the alerts\<close>

lemma get_city_coordinates_trace:
  "snd (get_city_coordinates w self city) = [geocoding_request self city]"
  by (simp add: get_city_coordinates_def Let_def)

lemma get_owm_alerts_trace:
  "snd (get_owm_alerts w self lat lon) = [owm_alerts_request self lat lon]"
  by (simp add: get_owm_alerts_def Let_def)

lemma get_vc_alerts_trace:
  "snd (get_vc_alerts w self city) = [vc_alerts_request self city]"
  by (simp add: get_vc_alerts_def Let_def)

lemma get_owm_alerts_failed:
  "http w (owm_alerts_request self lat lon) = None \<Longrightarrow> fst (get_owm_alerts w self lat lon) = []"
  by (simp add: get_owm_alerts_def Let_def)

lemma get_vc_alerts_failed:
  "http w (vc_alerts_request self city) = None \<Longrightarrow> fst (get_vc_alerts w self city) = []"
  by (simp add: get_vc_alerts_def Let_def)

lemma get_weather_alerts_no_coordinates:
  assumes "fst (get_city_coordinates w self city) = None"
  shows "get_weather_alerts w self city = ([], [geocoding_request self city])"
proof -
  obtain c t where ct: "get_city_coordinates w self city = (c, t)"
    by (cases "get_city_coordinates w self city")
  with assms get_city_coordinates_trace[of w self city]
  have "c = None" "t = [geocoding_request self city]" by simp_all
  with ct show ?thesis by (simp add: get_weather_alerts_def)
qed

lemma get_weather_alerts_coordinates:
  assumes "fst (get_city_coordinates w self city) = Some (lat, lon)"
  shows "get_weather_alerts w self city =
     (fst (get_owm_alerts w self lat lon) @ fst (get_vc_alerts w self city),
      [geocoding_request self city, owm_alerts_request self lat lon,
       vc_alerts_request self city])"
proof -
  obtain c t where ct: "get_city_coordinates w self city = (c, t)"
    by (cases "get_city_coordinates w self city")
  with assms get_city_coordinates_trace[of w self city]
  have c: "c = Some (lat, lon)" "t = [geocoding_request self city]" by simp_all
  obtain a1 t1 where o: "get_owm_alerts w self lat lon = (a1, t1)"
    by (cases "get_owm_alerts w self lat lon")
  with get_owm_alerts_trace[of w self lat lon]
  have t1: "t1 = [owm_alerts_request self lat lon]" by simp
  obtain a2 t2 where v: "get_vc_alerts w self city = (a2, t2)"
    by (cases "get_vc_alerts w self city")
  with get_vc_alerts_trace[of w self city]
  have t2: "t2 = [vc_alerts_request self city]" by simp
  from ct c o t1 v t2 show ?thesis by (simp add: get_weather_alerts_def)
qed

lemma flood_alerts_served:
  "fst (get_vc_alerts geocoding_down_world example_service ''Miami'') = [flood_alert]"
  by (simp add: get_vc_alerts_def Let_def geocoding_down_world_def flood_payload_def
      vc_alert_record_def flood_alert_def)

lemma geocoding_down:
  "fst (get_city_coordinates geocoding_down_world example_service ''Miami'') = None"
  by (simp add: get_city_coordinates_def Let_def geocoding_down_world_def
      geocoding_request_def vc_alerts_request_def vc_base_url_def owm_geocoding_url_def)

text \<open>
  Claim C8, as stated, fails when geocoding is the sub-call that errors: the operation
  returns at once, and the alert that the primary provider has for the city is not
  fetched.
\<close>

theorem get_weather_alerts_geocoding_counterexample:
  "fst (get_city_coordinates geocoding_down_world example_service ''Miami'') = None \<and>
   fst (get_vc_alerts geocoding_down_world example_service ''Miami'') = [flood_alert] \<and>
   get_weather_alerts geocoding_down_world example_service ''Miami'' =
     ([], [geocoding_request example_service ''Miami''])"
  using geocoding_down flood_alerts_served
    get_weather_alerts_no_coordinates[OF geocoding_down]
  by simp

text \<open>
  Claim C8, amended. \<open>get_weather_alerts\<close> always returns a list. When geocoding yields no
  coordinates the list is empty and no provider is asked. When it yields coordinates,
  both providers are asked, in this order, and the result is the alerts derived from the
  secondary provider followed by the primary provider's; a provider whose request fails
  contributes none, and when both fail the result is empty.
\<close>

theorem get_weather_alerts_never_fails:
  "(fst (get_city_coordinates w self city) = None \<longrightarrow>
      get_weather_alerts w self city = ([], [geocoding_request self city]))
   \<and> (fst (get_city_coordinates w self city) = Some (lat, lon) \<longrightarrow>
      get_weather_alerts w self city =
        (fst (get_owm_alerts w self lat lon) @ fst (get_vc_alerts w self city),
         [geocoding_request self city, owm_alerts_request self lat lon,
          vc_alerts_request self city])
      \<and> (http w (owm_alerts_request self lat lon) = None \<longrightarrow>
           fst (get_weather_alerts w self city) = fst (get_vc_alerts w self city))
      \<and> (http w (vc_alerts_request self city) = None \<longrightarrow>
           fst (get_weather_alerts w self city) = fst (get_owm_alerts w self lat lon))
      \<and> (http w (owm_alerts_request self lat lon) = None \<longrightarrow>
         http w (vc_alerts_request self city) = None \<longrightarrow>
           fst (get_weather_alerts w self city) = []))"
proof (intro conjI impI)
  assume "fst (get_city_coordinates w self city) = None"
  then show "get_weather_alerts w self city = ([], [geocoding_request self city])"
    by (rule get_weather_alerts_no_coordinates)
next
  assume c: "fst (get_city_coordinates w self city) = Some (lat, lon)"
  note eq = get_weather_alerts_coordinates[OF c]
  show "get_weather_alerts w self city =
        (fst (get_owm_alerts w self lat lon) @ fst (get_vc_alerts w self city),
         [geocoding_request self city, owm_alerts_request self lat lon,
          vc_alerts_request self city])"
    by (rule eq)
  show "fst (get_weather_alerts w self city) = fst (get_vc_alerts w self city)"
    if "http w (owm_alerts_request self lat lon) = None"
    using that eq by (simp add: get_owm_alerts_failed)
  show "fst (get_weather_alerts w self city) = fst (get_owm_alerts w self lat lon)"
    if "http w (vc_alerts_request self city) = None"
    using that eq by (simp add: get_vc_alerts_failed)
  show "fst (get_weather_alerts w self city) = []"
    if "http w (owm_alerts_request self lat lon) = None"
      and "http w (vc_alerts_request self city) = None"
    using that eq by (simp add: get_owm_alerts_failed get_vc_alerts_failed)
qed

lemma miami_coordinates:
  "fst (get_city_coordinates secondary_down_world example_service ''Miami'') =
     Some (PNum (644 / 25), PNum (- (401 / 5)))"
  by (simp add: get_city_coordinates_def Let_def secondary_down_world_def miami_geocode_def
      geocoding_request_def vc_alerts_request_def vc_base_url_def owm_geocoding_url_def)

lemma miami_secondary_down:
  "http secondary_down_world
     (owm_alerts_request example_service (PNum (644 / 25)) (PNum (- (401 / 5)))) = None"
  by (simp add: secondary_down_world_def owm_alerts_request_def geocoding_request_def
      vc_alerts_request_def vc_base_url_def owm_geocoding_url_def owm_base_url_def)

lemma miami_flood_alerts:
  "fst (get_vc_alerts secondary_down_world example_service ''Miami'') = [flood_alert]"
  by (simp add: get_vc_alerts_def Let_def secondary_down_world_def flood_payload_def
      vc_alert_record_def flood_alert_def)

theorem get_weather_alerts_never_fails_witness:
  "fst (get_city_coordinates secondary_down_world example_service ''Miami'') =
     Some (PNum (644 / 25), PNum (- (401 / 5))) \<and>
   http secondary_down_world
     (owm_alerts_request example_service (PNum (644 / 25)) (PNum (- (401 / 5)))) = None \<and>
   fst (get_weather_alerts secondary_down_world example_service ''Miami'') = [flood_alert]"
proof -
  have "fst (get_weather_alerts secondary_down_world example_service ''Miami'') =
      fst (get_vc_alerts secondary_down_world example_service ''Miami'')"
    using get_weather_alerts_never_fails
      [of secondary_down_world example_service "''Miami''" "PNum (644 / 25)"
        "PNum (- (401 / 5))"]
      miami_coordinates miami_secondary_down
    by blast
  with miami_coordinates miami_secondary_down miami_flood_alerts show ?thesis
    by (simp only: simp_thms)
qed

section \<open>Properties of the formatted current weather\<close>

lemma format_current_weather_fields:
  assumes "format_current_weather w weather_data \<noteq> PDict []"
  shows "\<exists>main wind tv fv pv sv temp feels pressure speed.
           py_get weather_data ''main'' (PDict []) = Some main \<and>
           py_get weather_data ''wind'' (PDict []) = Some wind \<and>
           py_get main ''temp'' (PNum 0) = Some tv \<and> num_of tv = Some temp \<and>
           py_get main ''feels_like'' (PNum 0) = Some fv \<and> num_of fv = Some feels \<and>
           py_get main ''pressure'' (PNum 0) = Some pv \<and> num_of pv = Some pressure \<and>
           py_get wind ''speed'' (PNum 0) = Some sv \<and> num_of sv = Some speed \<and>
           py_item (format_current_weather w weather_data) ''temperature'' =
             Some (PNum (of_int (py_round temp))) \<and>
           py_item (format_current_weather w weather_data) ''feels_like'' =
             Some (PNum (of_int (py_round feels))) \<and>
           py_item (format_current_weather w weather_data) ''pressure'' =
             Some (PNum (of_int (py_round pressure))) \<and>
           py_item (format_current_weather w weather_data) ''wind_speed'' =
             Some (PNum (py_round1 speed)) \<and>
           py_item (format_current_weather w weather_data) ''humidity'' =
             py_get main ''humidity'' (PNum 0)"
  using assms
  by (auto simp: format_current_weather_def bind_eq_Some_conv round_val_def round1_val_def
      split: if_splits option.splits)

lemma london_formatted:
  "format_current_weather quiet_world london_vc_record = london_formatted"
  by (simp add: format_current_weather_def london_vc_record_def london_formatted_def
      round_val_def round1_val_def py_div_def py_fromtimestamp_def quiet_world_def utc_epoch
      py_round_def py_round1_def Let_def)

text \<open>
  Claim C7, as stated, fails for the humidity: the primary provider's humidity of 65.5
  is displayed as 65.5.
\<close>

theorem format_current_weather_humidity_counterexample:
  "py_path london_vc_record [''main'', ''humidity''] = Some (PNum (131 / 2)) \<and>
   py_item (format_current_weather quiet_world london_vc_record) ''humidity'' =
     Some (PNum (131 / 2)) \<and>
   py_item (format_current_weather quiet_world london_vc_record) ''humidity'' \<noteq>
     Some (PNum (of_int (py_round (131 / 2))))"
proof -
  have "py_path london_vc_record [''main'', ''humidity''] = Some (PNum (131 / 2))"
    by (simp add: london_vc_record_def)
  moreover have "py_item london_formatted ''humidity'' = Some (PNum (131 / 2))"
    by (simp add: london_formatted_def)
  moreover have "py_item london_formatted ''humidity'' \<noteq> Some (PNum (of_int (py_round (131 / 2))))"
    by (simp add: london_formatted_def py_round_def Let_def)
  ultimately show ?thesis by (simp only: london_formatted simp_thms)
qed

text \<open>
  Claim C7, amended. Whenever \<open>format_current_weather\<close> produces a record, the
  temperature, the feels-like temperature and the pressure in it are the input's values
  (0 when absent) rounded to a nearest integer, a tie going to the even one, the wind
  speed is the input's rounded to one decimal place, and the humidity is the input's
  humidity unchanged.
\<close>

theorem format_current_weather_rounding:
  assumes "format_current_weather w weather_data \<noteq> PDict []"
  shows "\<exists>main wind tv fv pv sv temp feels pressure speed.
           py_get weather_data ''main'' (PDict []) = Some main \<and>
           py_get weather_data ''wind'' (PDict []) = Some wind \<and>
           py_get main ''temp'' (PNum 0) = Some tv \<and> num_of tv = Some temp \<and>
           py_get main ''feels_like'' (PNum 0) = Some fv \<and> num_of fv = Some feels \<and>
           py_get main ''pressure'' (PNum 0) = Some pv \<and> num_of pv = Some pressure \<and>
           py_get wind ''speed'' (PNum 0) = Some sv \<and> num_of sv = Some speed \<and>
           py_item (format_current_weather w weather_data) ''temperature'' =
             Some (PNum (of_int (py_round temp))) \<and>
           \<bar>of_int (py_round temp) - temp\<bar> \<le> 1 / 2 \<and>
           py_item (format_current_weather w weather_data) ''feels_like'' =
             Some (PNum (of_int (py_round feels))) \<and>
           \<bar>of_int (py_round feels) - feels\<bar> \<le> 1 / 2 \<and>
           py_item (format_current_weather w weather_data) ''pressure'' =
             Some (PNum (of_int (py_round pressure))) \<and>
           \<bar>of_int (py_round pressure) - pressure\<bar> \<le> 1 / 2 \<and>
           py_item (format_current_weather w weather_data) ''wind_speed'' =
             Some (PNum (py_round1 speed)) \<and>
           py_round1 speed * 10 = of_int (py_round (speed * 10)) \<and>
           \<bar>py_round1 speed - speed\<bar> \<le> 1 / 20 \<and>
           py_item (format_current_weather w weather_data) ''humidity'' =
             py_get main ''humidity'' (PNum 0)"
proof -
  from format_current_weather_fields[OF assms]
  obtain main wind tv fv pv sv temp feels pressure speed where
    f: "py_get weather_data ''main'' (PDict []) = Some main"
      "py_get weather_data ''wind'' (PDict []) = Some wind"
      "py_get main ''temp'' (PNum 0) = Some tv" "num_of tv = Some temp"
      "py_get main ''feels_like'' (PNum 0) = Some fv" "num_of fv = Some feels"
      "py_get main ''pressure'' (PNum 0) = Some pv" "num_of pv = Some pressure"
      "py_get wind ''speed'' (PNum 0) = Some sv" "num_of sv = Some speed"
      "py_item (format_current_weather w weather_data) ''temperature'' =
         Some (PNum (of_int (py_round temp)))"
      "py_item (format_current_weather w weather_data) ''feels_like'' =
         Some (PNum (of_int (py_round feels)))"
      "py_item (format_current_weather w weather_data) ''pressure'' =
         Some (PNum (of_int (py_round pressure)))"
      "py_item (format_current_weather w weather_data) ''wind_speed'' =
         Some (PNum (py_round1 speed))"
      "py_item (format_current_weather w weather_data) ''humidity'' =
         py_get main ''humidity'' (PNum 0)"
    by blast
  have "py_round1 speed * 10 = of_int (py_round (speed * 10))"
    by (simp add: py_round1_def)
  with f py_round_nearest[of temp] py_round_nearest[of feels] py_round_nearest[of pressure]
    py_round1_nearest[of speed]
  show ?thesis by blast
qed

theorem format_current_weather_rounding_witness:
  "py_path london_vc_record [''main'', ''feels_like''] = Some (PNum (39 / 2)) \<and>
   py_item (format_current_weather quiet_world london_vc_record) ''feels_like'' =
     Some (PNum 20) \<and>
   py_path london_vc_record [''wind'', ''speed''] = Some (PNum (25 / 2)) \<and>
   py_item (format_current_weather quiet_world london_vc_record) ''wind_speed'' =
     Some (PNum (25 / 2))"
proof -
  have ne: "format_current_weather quiet_world london_vc_record \<noteq> PDict []"
    by (simp add: london_formatted london_formatted_def)
  from format_current_weather_rounding[OF ne]
  obtain main wind fv sv feels speed where
    f: "py_get london_vc_record ''main'' (PDict []) = Some main"
      "py_get london_vc_record ''wind'' (PDict []) = Some wind"
      "py_get main ''feels_like'' (PNum 0) = Some fv" "num_of fv = Some feels"
      "py_get wind ''speed'' (PNum 0) = Some sv" "num_of sv = Some speed"
      "py_item (format_current_weather quiet_world london_vc_record) ''feels_like'' =
         Some (PNum (of_int (py_round feels)))"
      "py_item (format_current_weather quiet_world london_vc_record) ''wind_speed'' =
         Some (PNum (py_round1 speed))"
    by blast
  from f(1,3,4) have feels: "feels = 39 / 2"
    by (auto simp: london_vc_record_def)
  from f(2,5,6) have speed: "speed = 25 / 2"
    by (auto simp: london_vc_record_def)
  have "py_round (39 / 2) = 20" "py_round1 (25 / 2) = 25 / 2"
    by (simp_all add: py_round_def py_round1_def Let_def)
  with f(7,8) feels speed
  have "py_item (format_current_weather quiet_world london_vc_record) ''feels_like'' =
          Some (PNum 20)"
    "py_item (format_current_weather quiet_world london_vc_record) ''wind_speed'' =
          Some (PNum (25 / 2))"
    by simp_all
  moreover have "py_path london_vc_record [''main'', ''feels_like''] = Some (PNum (39 / 2))"
    "py_path london_vc_record [''wind'', ''speed''] = Some (PNum (25 / 2))"
    by (simp_all add: london_vc_record_def)
  ultimately show ?thesis by blast
qed

section \<open>Properties of the formatted forecast\<close>





lemma set_py_slice_to: "set (py_slice_to n xs) \<subseteq> set xs"
  by (auto simp: py_slice_to_def dest: in_set_takeD)









lemma sample_date:
  assumes "fromtimestamp w = utc_first_days" and "0 \<le> t" and "t < 86400"
  shows "item_date w (owm_sample t x d) = Some ''1970-01-01''"
  using assms
  by (simp add: item_date_def owm_sample_def py_fromtimestamp_def utc_first_days_def Let_def)

lemma quiet_world_clock: "fromtimestamp quiet_world = utc_first_days"
  by (simp add: quiet_world_def)

lemma one_day_grouped:
  "group_by_date quiet_world one_day_samples [] = Some [(''1970-01-01'', one_day_samples)]"
  by (simp add: one_day_samples_def sample_date[OF quiet_world_clock] add_to_date_def)

lemma one_day_aggregated:
  "aggregate_day quiet_world ''1970-01-01'' one_day_samples = Some one_day_formatted"
  by (simp add: one_day_samples_def one_day_formatted_def aggregate_day_def owm_sample_def
      item_main_def item_description_def item_wind_speed_def item_pop_def mean_of_def
      py_min_def py_max_def py_sum_def div_len_def most_frequent_def py_count_def py_eq_def
      quiet_world_def py_round_def py_round1_def Let_def)

lemma one_day_formatted:
  "format_forecast_data quiet_world one_day_forecast 10 = [one_day_formatted]"
  by (simp add: format_forecast_data_def one_day_forecast_def owm_forecast_def one_day_grouped
      py_slice_to_def one_day_aggregated)






section \<open>Properties of the representative description\<close>

lemma fold_max_key:
  fixes f :: "'a \<Rightarrow> nat"
  defines "step \<equiv> (\<lambda>y m. if f m < f y then y else m)"
  shows "\<exists>i < length (x # xs). (x # xs) ! i = fold step xs x \<and>
           (\<forall>j<i. f ((x # xs) ! j) < f (fold step xs x)) \<and>
           (\<forall>y \<in> set (x # xs). f y \<le> f (fold step xs x))"
proof (induction xs rule: rev_induct)
  case Nil
  then show ?case by simp
next
  case (snoc y ys)
  let ?r = "fold step ys x"
  from snoc obtain i where i: "i < length (x # ys)" "(x # ys) ! i = ?r"
    "\<forall>j<i. f ((x # ys) ! j) < f ?r" "\<forall>z \<in> set (x # ys). f z \<le> f ?r"
    by blast
  have nth_old: "(x # ys @ [y]) ! j = (x # ys) ! j" if "j < length (x # ys)" for j
    using that by (metis append_Cons nth_append)
  show ?case
  proof (cases "f ?r < f y")
    case True
    then have r: "fold step (ys @ [y]) x = y" by (simp add: step_def)
    have "(x # ys @ [y]) ! length (x # ys) = y"
      by (metis append_Cons nth_append_length)
    moreover have "\<forall>j<length (x # ys). f ((x # ys @ [y]) ! j) < f y"
    proof (intro allI impI)
      fix j assume j: "j < length (x # ys)"
      then have "(x # ys) ! j \<in> set (x # ys)" by (rule nth_mem)
      with i(4) have "f ((x # ys) ! j) \<le> f ?r" by blast
      with True nth_old[OF j] show "f ((x # ys @ [y]) ! j) < f y" by simp
    qed
    moreover have "\<forall>z \<in> set (x # ys @ [y]). f z \<le> f y"
      using i(4) True by auto
    ultimately show ?thesis
      unfolding r by (intro exI[of _ "length (x # ys)"]) simp
  next
    case False
    then have r: "fold step (ys @ [y]) x = ?r" by (simp add: step_def)
    have "(x # ys @ [y]) ! i = ?r" using nth_old[OF i(1)] i(2) by simp
    moreover have "\<forall>j<i. f ((x # ys @ [y]) ! j) < f ?r"
    proof (intro allI impI)
      fix j assume j: "j < i"
      with i(1) have "j < length (x # ys)" by simp
      from nth_old[OF this] i(3) j show "f ((x # ys @ [y]) ! j) < f ?r" by simp
    qed
    moreover have "\<forall>z \<in> set (x # ys @ [y]). f z \<le> f ?r"
      using i(4) False by auto
    moreover have "i < length (x # ys @ [y])" using i(1) by simp
    ultimately show ?thesis unfolding r by blast
  qed
qed

lemma max_key_Some:
  assumes "max_key f xs = Some r"
  shows "\<exists>i < length xs. xs ! i = r \<and> (\<forall>j<i. f (xs ! j) < f r) \<and> (\<forall>y \<in> set xs. f y \<le> f r)"
proof (cases xs)
  case Nil
  with assms show ?thesis by simp
next
  case (Cons x rest)
  with assms have "r = fold (\<lambda>y m. if f m < f y then y else m) rest x" by simp
  with fold_max_key[of x rest f] Cons show ?thesis by simp
qed


lemma py_eq_sym: "py_eq a b \<Longrightarrow> py_eq b a"
  by (auto simp: py_eq_def split: option.splits)

lemma py_eq_trans: "py_eq a b \<Longrightarrow> py_eq b c \<Longrightarrow> py_eq a c"
  by (auto simp: py_eq_def split: option.splits)

lemma py_eq_refl: "py_eq a a"
  by (auto simp: py_eq_def split: option.splits)

lemma py_count_cong:
  assumes "py_eq a b"
  shows "py_count xs a = py_count xs b"
proof -
  have "py_eq y a = py_eq y b" for y
    using assms py_eq_trans py_eq_sym by blast
  then show ?thesis by (simp add: py_count_def)
qed

lemma set_order_ok_iff:
  "set_order_ok w xs \<longleftrightarrow>
     set (set_order w xs) \<subseteq> set xs \<and> (\<forall>x \<in> set xs. \<exists>y \<in> set (set_order w xs). py_eq x y)"
  by (auto simp: set_order_ok_def list_all_iff list_ex_iff)

lemma most_frequent_Some:
  assumes "most_frequent w ds = Some d" and "set_order_ok w ds"
  shows "d \<in> set ds \<and> (\<forall>x \<in> set ds. py_count ds x \<le> py_count ds d) \<and>
         (\<exists>i < length (set_order w ds). set_order w ds ! i = d \<and>
            (\<forall>j<i. py_count ds (set_order w ds ! j) < py_count ds d))"
proof -
  from assms(1) have m: "max_key (py_count ds) (set_order w ds) = Some d"
    by (simp add: most_frequent_def split: if_splits)
  from max_key_Some[OF m] obtain i where
    i: "i < length (set_order w ds)" "set_order w ds ! i = d"
      "\<forall>j<i. py_count ds (set_order w ds ! j) < py_count ds d"
      "\<forall>y \<in> set (set_order w ds). py_count ds y \<le> py_count ds d"
    by blast
  from assms(2) have ok: "set (set_order w ds) \<subseteq> set ds"
    "\<forall>x \<in> set ds. \<exists>y \<in> set (set_order w ds). py_eq x y"
    by (simp_all add: set_order_ok_iff)
  from i(1,2) have "d \<in> set (set_order w ds)" by (metis nth_mem)
  with ok(1) have "d \<in> set ds" by blast
  moreover have "\<forall>x \<in> set ds. py_count ds x \<le> py_count ds d"
  proof
    fix x assume "x \<in> set ds"
    with ok(2) obtain y where y: "y \<in> set (set_order w ds)" "py_eq x y" by blast
    from py_count_cong[OF y(2)] i(4) y(1) show "py_count ds x \<le> py_count ds d" by simp
  qed
  ultimately show ?thesis using i(1,2,3) by blast
qed

lemma aggregate_day_description:
  assumes "aggregate_day w date day_items = Some day"
  shows "\<exists>ds d. those (map item_description day_items) = Some ds \<and>
           most_frequent w ds = Some d \<and> py_item day ''description'' = Some d"
  using assms by (auto simp: aggregate_day_def bind_eq_Some_conv)

lemma tie_descriptions:
  "those (map item_description tie_samples) = Some [PStr ''light rain'', PStr ''clear sky'']"
  by (simp add: tie_samples_def owm_sample_def item_description_def)

lemma tie_grouped:
  assumes "fromtimestamp w = utc_first_days"
  shows "group_by_date w tie_samples [] = Some [(''1970-01-01'', tie_samples)]"
  by (simp add: tie_samples_def sample_date[OF assms] add_to_date_def)

lemma last_seen_world_clock: "fromtimestamp last_seen_world = utc_first_days"
  by (simp add: last_seen_world_def quiet_world_def)

lemma tie_last_seen:
  "format_forecast_data last_seen_world tie_forecast 10 = [tie_formatted ''clear sky'']"
proof -
  have "aggregate_day last_seen_world ''1970-01-01'' tie_samples =
      Some (tie_formatted ''clear sky'')"
    by (simp add: tie_samples_def tie_formatted_def aggregate_day_def owm_sample_def
      item_main_def item_description_def item_wind_speed_def item_pop_def mean_of_def
      py_min_def py_max_def py_sum_def div_len_def most_frequent_def py_count_def py_eq_def
      last_seen_world_def quiet_world_def py_round_def py_round1_def Let_def)
  moreover have "group_by_date last_seen_world tie_samples [] =
      Some [(''1970-01-01'', tie_samples)]"
    by (rule tie_grouped[OF last_seen_world_clock])
  ultimately show ?thesis
    by (simp add: format_forecast_data_def tie_forecast_def owm_forecast_def py_slice_to_def)
qed

text \<open>
  Claim C4, as stated, fails on a tie: the description chosen is the first one with the
  largest count in the order in which the set of descriptions is iterated, and that order
  is not the order in which the descriptions were encountered. Here the set yields the
  later description first, and the formatted day gets \<open>clear sky\<close> although \<open>light rain\<close>
  was encountered first.
\<close>

theorem most_frequent_tie_counterexample:
  "those (map item_description tie_samples) = Some [PStr ''light rain'', PStr ''clear sky''] \<and>
   set_order_ok last_seen_world [PStr ''light rain'', PStr ''clear sky''] \<and>
   first_encountered_most_frequent [PStr ''light rain'', PStr ''clear sky''] =
     Some (PStr ''light rain'') \<and>
   format_forecast_data last_seen_world tie_forecast 10 = [tie_formatted ''clear sky''] \<and>
   py_item (tie_formatted ''clear sky'') ''description'' = Some (PStr ''clear sky'')"
proof -
  have "set_order_ok last_seen_world [PStr ''light rain'', PStr ''clear sky'']"
    by (simp add: set_order_ok_def last_seen_world_def quiet_world_def py_eq_def)
  moreover have "first_encountered_most_frequent [PStr ''light rain'', PStr ''clear sky''] =
     Some (PStr ''light rain'')"
    by (simp add: first_encountered_most_frequent_def py_count_def py_eq_def)
  moreover have "py_item (tie_formatted ''clear sky'') ''description'' = Some (PStr ''clear sky'')"
    by (simp add: tie_formatted_def)
  ultimately show ?thesis using tie_descriptions tie_last_seen by blast
qed

text \<open>
  Claim C4, amended. For every group of samples of one date from which a day is
  aggregated, the day's description is one of the descriptions of the group, no
  description of the group occurs more often, and among the descriptions that occur as
  often it is the one that the iteration of the set of descriptions yields first. This
  holds in every world in which the set yields descriptions of the group and misses none.
\<close>

theorem aggregate_day_most_frequent:
  assumes "aggregate_day w date day_items = Some day"
    and "those (map item_description day_items) = Some ds"
    and "set_order_ok w ds"
  shows "\<exists>d. py_item day ''description'' = Some d \<and> d \<in> set ds \<and>
           (\<forall>x \<in> set ds. py_count ds x \<le> py_count ds d) \<and>
           (\<exists>i < length (set_order w ds). set_order w ds ! i = d \<and>
              (\<forall>j<i. py_count ds (set_order w ds ! j) < py_count ds d))"
proof -
  from aggregate_day_description[OF assms(1)] assms(2) obtain d where
    d: "most_frequent w ds = Some d" "py_item day ''description'' = Some d"
    by auto
  from most_frequent_Some[OF d(1) assms(3)] d(2) show ?thesis by blast
qed

lemma one_day_descriptions:
  "those (map item_description one_day_samples) =
     Some [PStr ''clear sky'', PStr ''clear sky'', PStr ''clear sky'', PStr ''light rain'',
           PStr ''light rain'', PStr ''light rain'', PStr ''light rain'', PStr ''light rain'']"
  by (simp add: one_day_samples_def owm_sample_def item_description_def)

theorem aggregate_day_most_frequent_witness:
  "aggregate_day quiet_world ''1970-01-01'' one_day_samples = Some one_day_formatted \<and>
   py_item one_day_formatted ''description'' = Some (PStr ''light rain'') \<and>
   py_count [PStr ''clear sky'', PStr ''clear sky'', PStr ''clear sky'', PStr ''light rain'',
             PStr ''light rain'', PStr ''light rain'', PStr ''light rain'', PStr ''light rain'']
     (PStr ''light rain'') = 5"
proof -
  let ?ds = "[PStr ''clear sky'', PStr ''clear sky'', PStr ''clear sky'', PStr ''light rain'',
           PStr ''light rain'', PStr ''light rain'', PStr ''light rain'', PStr ''light rain'']"
  have ok: "set_order_ok quiet_world ?ds"
    by (simp add: set_order_ok_def quiet_world_def py_eq_def)
  from aggregate_day_most_frequent[OF one_day_aggregated one_day_descriptions ok]
  obtain d where d: "py_item one_day_formatted ''description'' = Some d"
    "\<forall>x \<in> set ?ds. py_count ?ds x \<le> py_count ?ds d" "d \<in> set ?ds"
    by blast
  have five: "py_count ?ds (PStr ''light rain'') = 5" "py_count ?ds (PStr ''clear sky'') = 3"
    by (simp_all add: py_count_def py_eq_def)
  from d(2) have "py_count ?ds (PStr ''light rain'') \<le> py_count ?ds d" by simp
  with d(3) five have "d = PStr ''light rain''" by auto
  with d(1) five(1) one_day_aggregated show ?thesis by blast
qed

section \<open>Properties of duplicated samples\<close>
















section \<open>Properties of missing fields\<close>

lemma map_of_fill_in:
  "map_of (fill_in defaults kvs) k =
     (case map_of kvs k of Some v \<Rightarrow> Some v | None \<Rightarrow> map_of defaults k)"
proof (induction defaults arbitrary: kvs)
  case Nil
  then show ?case by (simp split: option.splits)
next
  case (Cons p defaults)
  obtain k' v' where p: "p = (k', v')" by (cases p)
  show ?case
    by (simp add: p Cons.IH map_add_def split: option.splits)
qed

lemma map_of_map_values:
  "map_of (map (\<lambda>kv. (fst kv, g (fst kv) (snd kv))) kvs) k = map_option (g k) (map_of kvs k)"
  by (induction kvs) auto

lemma map_of_with_current_defaults:
  "map_of (with_current_defaults kvs) k =
     map_option (fill_nested k)
       (case map_of kvs k of Some v \<Rightarrow> Some v | None \<Rightarrow> map_of top_defaults k)"
  by (simp add: with_current_defaults_def map_of_map_values map_of_fill_in)

lemma py_get_fill_dict:
  assumes "map_of defaults k = Some d"
  shows "py_get (fill_dict defaults v) k d = py_get v k d"
  using assms by (cases v) (simp_all add: map_of_fill_in split: option.splits)

lemma py_first_fill_first:
  "py_first (fill_first defaults v) = map_option (fill_dict defaults) (py_first v)"
proof (cases v)
  case (PList xs)
  then show ?thesis by (cases xs) simp_all
next
  case (PStr s)
  then show ?thesis by (cases s) simp_all
qed simp_all

lemma fill_in_nonempty: "kvs \<noteq> [] \<Longrightarrow> fill_in defaults kvs \<noteq> []"
proof (induction defaults arbitrary: kvs)
  case Nil
  then show ?case by simp
next
  case (Cons p defaults)
  obtain k v where p: "p = (k, v)" by (cases p)
  from Cons.prems have "(if map_of kvs k = None then kvs @ [(k, v)] else kvs) \<noteq> []" by simp
  from Cons.IH[OF this] show ?case by (simp add: p)
qed

lemma with_current_defaults_nonempty: "kvs \<noteq> [] \<Longrightarrow> with_current_defaults kvs \<noteq> []"
  by (simp add: with_current_defaults_def fill_in_nonempty)

lemma py_get_with_current_defaults:
  "py_get (PDict (with_current_defaults kvs)) ''name'' (PStr []) =
     py_get (PDict kvs) ''name'' (PStr [])"
  "py_get (PDict (with_current_defaults kvs)) ''visibility'' (PNum 0) =
     py_get (PDict kvs) ''visibility'' (PNum 0)"
  "py_get (PDict (with_current_defaults kvs)) ''source'' (PStr ''unknown'') =
     py_get (PDict kvs) ''source'' (PStr ''unknown'')"
  "py_get (PDict (with_current_defaults kvs)) ''sys'' (PDict []) =
     map_option (fill_dict sys_defaults) (py_get (PDict kvs) ''sys'' (PDict []))"
  "py_get (PDict (with_current_defaults kvs)) ''main'' (PDict []) =
     map_option (fill_dict main_defaults) (py_get (PDict kvs) ''main'' (PDict []))"
  "py_get (PDict (with_current_defaults kvs)) ''wind'' (PDict []) =
     map_option (fill_dict wind_defaults) (py_get (PDict kvs) ''wind'' (PDict []))"
  "py_get (PDict (with_current_defaults kvs)) ''weather'' (PList [PDict []]) =
     map_option (fill_first weather_defaults) (py_get (PDict kvs) ''weather'' (PList [PDict []]))"
  by (simp_all add: map_of_with_current_defaults top_defaults_def fill_nested_def
      split: option.splits)

lemma nested_defaults:
  "py_get (fill_dict sys_defaults v) ''country'' (PStr []) = py_get v ''country'' (PStr [])"
  "py_get (fill_dict sys_defaults v) ''sunrise'' (PNum 0) = py_get v ''sunrise'' (PNum 0)"
  "py_get (fill_dict sys_defaults v) ''sunset'' (PNum 0) = py_get v ''sunset'' (PNum 0)"
  "py_get (fill_dict main_defaults v) ''temp'' (PNum 0) = py_get v ''temp'' (PNum 0)"
  "py_get (fill_dict main_defaults v) ''feels_like'' (PNum 0) = py_get v ''feels_like'' (PNum 0)"
  "py_get (fill_dict main_defaults v) ''humidity'' (PNum 0) = py_get v ''humidity'' (PNum 0)"
  "py_get (fill_dict main_defaults v) ''pressure'' (PNum 0) = py_get v ''pressure'' (PNum 0)"
  "py_get (fill_dict wind_defaults v) ''speed'' (PNum 0) = py_get v ''speed'' (PNum 0)"
  "py_get (fill_dict wind_defaults v) ''deg'' (PNum 0) = py_get v ''deg'' (PNum 0)"
  "py_get (fill_dict weather_defaults v) ''description'' (PStr []) =
     py_get v ''description'' (PStr [])"
  by (simp_all add: py_get_fill_dict sys_defaults_def main_defaults_def wind_defaults_def
      weather_defaults_def)

lemma format_current_weather_filled:
  assumes "kvs \<noteq> []"
  shows "format_current_weather w (PDict (with_current_defaults kvs)) =
         format_current_weather w (PDict kvs)"
proof -
  obtain sys main wind weather where
    g: "py_get (PDict kvs) ''sys'' (PDict []) = Some sys"
      "py_get (PDict kvs) ''main'' (PDict []) = Some main"
      "py_get (PDict kvs) ''wind'' (PDict []) = Some wind"
      "py_get (PDict kvs) ''weather'' (PList [PDict []]) = Some weather"
    by simp
  show ?thesis
  proof (cases "py_first weather")
    case None
    with assms g show ?thesis
      unfolding format_current_weather_def
      by (simp only: py_get_with_current_defaults nested_defaults py_first_fill_first)
        (simp add: with_current_defaults_nonempty nested_defaults py_first_fill_first)
  next
    case (Some first)
    with assms g show ?thesis
      unfolding format_current_weather_def
      by (simp only: py_get_with_current_defaults nested_defaults py_first_fill_first)
        (simp add: with_current_defaults_nonempty nested_defaults py_first_fill_first)
  qed
qed

lemma format_current_weather_all_missing:
  assumes "kvs \<noteq> []"
    and "\<forall>k \<in> set (map fst top_defaults). map_of kvs k = None"
    and "fromtimestamp w 0 = Some epoch"
  shows "format_current_weather w (PDict kvs) = default_display w epoch"
proof -
  from assms(2) have
    "map_of kvs ''name'' = None" "map_of kvs ''sys'' = None" "map_of kvs ''main'' = None"
    "map_of kvs ''weather'' = None" "map_of kvs ''wind'' = None"
    "map_of kvs ''visibility'' = None" "map_of kvs ''source'' = None"
    by (simp_all add: top_defaults_def)
  with assms(1,3) show ?thesis
    by (simp add: format_current_weather_def default_display_def round_val_def round1_val_def
        py_div_def py_fromtimestamp_def)
qed

lemma with_current_defaults_complete:
  "\<forall>k \<in> set (map fst top_defaults). map_of (with_current_defaults kvs) k \<noteq> None"
  by (simp add: map_of_with_current_defaults top_defaults_def split: option.splits)

lemma py_item_appended:
  assumes "k \<noteq> k'"
  shows "py_item (PDict (kvs @ [(k', v)])) k = py_item (PDict kvs) k"
  using assms by (simp add: map_add_def split: option.splits)

lemma pop_default:
  assumes "map_of item ''pop'' = None"
  shows "format_daily_item w (PDict (item @ [(''pop'', PNum 0)])) = format_daily_item w (PDict item)"
    and "item_pop (PDict (item @ [(''pop'', PNum 0)])) = item_pop (PDict item)"
proof -
  have pop: "py_get (PDict (item @ [(''pop'', PNum 0)])) ''pop'' (PNum 0) =
      py_get (PDict item) ''pop'' (PNum 0)"
    using assms by (simp add: map_add_def)
  have others: "py_item (PDict (item @ [(''pop'', PNum 0)])) ''dt'' = py_item (PDict item) ''dt''"
    "py_item (PDict (item @ [(''pop'', PNum 0)])) ''main'' = py_item (PDict item) ''main''"
    "py_item (PDict (item @ [(''pop'', PNum 0)])) ''weather'' = py_item (PDict item) ''weather''"
    "py_item (PDict (item @ [(''pop'', PNum 0)])) ''wind'' = py_item (PDict item) ''wind''"
    by (simp_all only: py_item_appended char.inject list.inject simp_thms not_False_eq_True)
  show "format_daily_item w (PDict (item @ [(''pop'', PNum 0)])) = format_daily_item w (PDict item)"
    unfolding format_daily_item_def by (simp only: pop others)
  show "item_pop (PDict (item @ [(''pop'', PNum 0)])) = item_pop (PDict item)"
    unfolding item_pop_def by (rule pop)
qed

lemma windless_discarded:
  "format_forecast_data quiet_world (owm_forecast [windless_sample]) 10 = []"
proof -
  have "item_date quiet_world windless_sample = Some ''1970-01-01''"
    by (simp add: item_date_def windless_sample_def py_fromtimestamp_def quiet_world_def
        utc_epoch)
  then have "group_by_date quiet_world [windless_sample] [] =
      Some [(''1970-01-01'', [windless_sample])]"
    by (simp add: add_to_date_def)
  moreover have "mean_of item_wind_speed [windless_sample] = None"
    by (simp add: mean_of_def item_wind_speed_def windless_sample_def)
  then have "aggregate_day quiet_world ''1970-01-01'' [windless_sample] = None"
    by (simp add: aggregate_day_def bind_eq_None_conv)
  ultimately show ?thesis
    by (simp add: format_forecast_data_def owm_forecast_def py_slice_to_def)
qed

text \<open>
  Claim C9, as stated, fails. \<open>format_forecast_data\<close> reads the fields of an item by
  subscription: a sample of the secondary provider that lacks \<open>wind\<close> raises KeyError, and
  the handler returns no forecast at all. \<open>format_current_weather\<close> returns the empty
  record for the empty dictionary.
\<close>

theorem missing_fields_counterexample:
  "py_item windless_sample ''wind'' = None \<and>
   format_forecast_data quiet_world (owm_forecast [windless_sample]) 10 = [] \<and>
   format_current_weather quiet_world (PDict []) = PDict []"
proof -
  have "py_item windless_sample ''wind'' = None"
    by (simp add: windless_sample_def)
  moreover have "format_current_weather quiet_world (PDict []) = PDict []"
    by (simp add: format_current_weather_def)
  ultimately show ?thesis using windless_discarded by blast
qed

text \<open>
  Claim C9, amended. \<open>format_current_weather\<close> tolerates missing fields in every
  dictionary that is not empty: a field that is absent is read as its default (0 for a
  number, the empty string for the name, the country and the description, \<open>unknown\<close> for
  the source tag), so the record is the one of the input with the defaults filled in, in
  which no field is absent; with every field absent the record is the display record of
  the defaults. \<open>format_forecast_data\<close> has a default (0) for the precipitation
  probability of an item.
\<close>

theorem format_current_weather_defaults:
  "(kvs \<noteq> [] \<longrightarrow>
      format_current_weather w (PDict (with_current_defaults kvs)) =
      format_current_weather w (PDict kvs))
   \<and> (\<forall>k \<in> set (map fst top_defaults). map_of (with_current_defaults kvs) k \<noteq> None)
   \<and> (kvs \<noteq> [] \<longrightarrow> (\<forall>k \<in> set (map fst top_defaults). map_of kvs k = None) \<longrightarrow>
      fromtimestamp w 0 = Some epoch \<longrightarrow>
        format_current_weather w (PDict kvs) = default_display w epoch)
   \<and> (map_of item ''pop'' = None \<longrightarrow>
        format_daily_item w (PDict (item @ [(''pop'', PNum 0)])) =
          format_daily_item w (PDict item) \<and>
        item_pop (PDict (item @ [(''pop'', PNum 0)])) = item_pop (PDict item))"
  using format_current_weather_filled[of kvs w] with_current_defaults_complete[of kvs]
    format_current_weather_all_missing[of kvs w epoch] pop_default
  by blast

theorem format_current_weather_defaults_witness:
  "format_current_weather quiet_world (PDict [(''cod'', PNum 200)]) =
     default_display quiet_world
       \<lparr>lt_ymd = ''1970-01-01'', lt_day_name = ''Thursday'', lt_hm = ''00:00''\<rparr> \<and>
   py_item (format_current_weather quiet_world (PDict [(''cod'', PNum 200)])) ''temperature'' =
     Some (PNum 0) \<and>
   py_item (format_current_weather quiet_world (PDict [(''cod'', PNum 200)])) ''description'' =
     Some (PStr []) \<and>
   py_item (format_current_weather quiet_world (PDict [(''cod'', PNum 200)])) ''source'' =
     Some (PStr ''unknown'')"
proof -
  have absent: "\<forall>k \<in> set (map fst top_defaults). map_of [(''cod'', PNum 200)] k = None"
    by (simp add: top_defaults_def)
  have epoch: "fromtimestamp quiet_world 0 =
      Some \<lparr>lt_ymd = ''1970-01-01'', lt_day_name = ''Thursday'', lt_hm = ''00:00''\<rparr>"
    by (simp add: quiet_world_def utc_epoch)
  have "format_current_weather quiet_world (PDict [(''cod'', PNum 200)]) =
     default_display quiet_world
       \<lparr>lt_ymd = ''1970-01-01'', lt_day_name = ''Thursday'', lt_hm = ''00:00''\<rparr>"
    using format_current_weather_defaults
      [of "[(''cod'', PNum 200)]" quiet_world
        "\<lparr>lt_ymd = ''1970-01-01'', lt_day_name = ''Thursday'', lt_hm = ''00:00''\<rparr>"]
      absent epoch
    by blast
  then show ?thesis by (simp add: default_display_def)
qed

end
